theory Spec2Isabelle
  imports Main
begin

section \<open>JavaScript values\<close>

text \<open>
  Pages, properties and configuration objects reach the exporter as parsed JSON. They are
  modelled by one datatype of JavaScript values. Objects are association lists in the
  order \<open>Object.entries\<close> enumerates them; a key is looked up with \<open>map_of\<close>.
  Numbers are integers (no claim depends on a fraction), and a \<open>char\<close> stands for one
  code unit below 256.
\<close>

datatype jsval =
    JUndefined
  | JNull
  | JBool bool
  | JNum int
  | JStr string
  | JArr "jsval list"
  | JObj "(string \<times> jsval) list"

datatype error =
    TypeError
  | MissingField string
  | InvalidDatabaseId string
  | RemoteError string
  | FsError string
  | DownloadError string

definition bindE :: "error + 'a \<Rightarrow> ('a \<Rightarrow> error + 'b) \<Rightarrow> error + 'b" where
  "bindE m f = (case m of Inl e \<Rightarrow> Inl e | Inr v \<Rightarrow> f v)"

fun mapE :: "('a \<Rightarrow> error + 'b) \<Rightarrow> 'a list \<Rightarrow> error + 'b list" where
  "mapE f [] = Inr []"
| "mapE f (x # xs) =
     (case f x of
        Inl e \<Rightarrow> Inl e
      | Inr y \<Rightarrow> (case mapE f xs of Inl e \<Rightarrow> Inl e | Inr ys \<Rightarrow> Inr (y # ys)))"

definition nullish :: "jsval \<Rightarrow> bool" where
  "nullish v = (v = JUndefined \<or> v = JNull)"

text \<open>\<open>Boolean(v)\<close>: the falsy values are undefined, null, false, 0 and the empty string.\<close>

fun truthy :: "jsval \<Rightarrow> bool" where
  "truthy JUndefined = False"
| "truthy JNull = False"
| "truthy (JBool b) = b"
| "truthy (JNum n) = (n \<noteq> 0)"
| "truthy (JStr s) = (s \<noteq> [])"
| "truthy (JArr xs) = True"
| "truthy (JObj kvs) = True"

text \<open>\<open>v?.k\<close>: undefined on a nullish value, on a primitive and on a missing key.\<close>

definition field :: "jsval \<Rightarrow> string \<Rightarrow> jsval" where
  "field v k =
     (case v of
        JObj kvs \<Rightarrow> (case map_of kvs k of Some x \<Rightarrow> x | None \<Rightarrow> JUndefined)
      | _ \<Rightarrow> JUndefined)"

text \<open>\<open>v.k\<close>: reading a property of undefined or null throws a TypeError.\<close>

definition get :: "jsval \<Rightarrow> string \<Rightarrow> error + jsval" where
  "get v k = (if nullish v then Inl TypeError else Inr (field v k))"

text \<open>\<open>a ?? b\<close> and \<open>a || b\<close>.\<close>

definition coalesce :: "jsval \<Rightarrow> jsval \<Rightarrow> jsval" where
  "coalesce a b = (if nullish a then b else a)"

definition js_or :: "jsval \<Rightarrow> jsval \<Rightarrow> jsval" where
  "js_or a b = (if truthy a then a else b)"

definition isArray :: "jsval \<Rightarrow> bool" where
  "isArray v = (case v of JArr _ \<Rightarrow> True | _ \<Rightarrow> False)"

subsection \<open>String conversion\<close>

function nat_to_str :: "nat \<Rightarrow> string" where
  "nat_to_str n =
     (if n < 10 then [char_of (48 + n)]
      else nat_to_str (n div 10) @ [char_of (48 + n mod 10)])"
  by pat_completeness auto
termination
  by (relation "measure id") auto

declare nat_to_str.simps [simp del]

definition int_to_str :: "int \<Rightarrow> string" where
  "int_to_str i = (if i < 0 then CHR ''-'' # nat_to_str (nat (- i)) else nat_to_str (nat i))"

fun join_with :: "string \<Rightarrow> string list \<Rightarrow> string" where
  "join_with sep [] = []"
| "join_with sep [x] = x"
| "join_with sep (x # y # ys) = x @ sep @ join_with sep (y # ys)"

text \<open>
  \<open>String(v)\<close>. An array is joined with commas, its undefined and null elements as the
  empty string (\<open>Array.prototype.join\<close>).
\<close>

fun js_String :: "jsval \<Rightarrow> string" where
  "js_String JUndefined = ''undefined''"
| "js_String JNull = ''null''"
| "js_String (JBool b) = (if b then ''true'' else ''false'')"
| "js_String (JNum n) = int_to_str n"
| "js_String (JStr s) = s"
| "js_String (JArr xs) =
     join_with '','' (map (\<lambda>x. if x = JUndefined \<or> x = JNull then [] else js_String x) xs)"
| "js_String (JObj kvs) = ''[object Object]''"

text \<open>\<open>xs.join("")\<close> on an array of values.\<close>

definition join_empty :: "jsval list \<Rightarrow> string" where
  "join_empty xs = concat (map (\<lambda>x. if nullish x then [] else js_String x) xs)"

text \<open>White space of \<open>String.prototype.trim\<close> and of the regular expression class \<open>\s\<close>.\<close>

definition js_ws :: "char \<Rightarrow> bool" where
  "js_ws c = (of_char c \<in> {9, 10, 11, 12, 13, 32, 160 :: nat})"

definition js_trim :: "string \<Rightarrow> string" where
  "js_trim s = rev (dropWhile js_ws (rev (dropWhile js_ws s)))"

section \<open>Property normalization\<close>

definition normalizeRichText :: "jsval \<Rightarrow> error + jsval" where
  "normalizeRichText rtArray =
     (case rtArray of
        JArr ts \<Rightarrow>
          bindE (mapE (\<lambda>t. bindE (get t ''plain_text'') (\<lambda>p. Inr (js_or p (JStr [])))) ts)
            (\<lambda>parts. Inr (JStr (join_empty parts)))
      | _ \<Rightarrow> Inr (JStr []))"

definition normalizePeople :: "jsval \<Rightarrow> jsval" where
  "normalizePeople peopleArray =
     (case peopleArray of
        JArr ps \<Rightarrow>
          JArr (filter truthy
            (map (\<lambda>p. js_or (field p ''name'')
                        (js_or (field (field p ''person'') ''email'') (field p ''id''))) ps))
      | _ \<Rightarrow> JArr [])"

definition file_url :: "jsval \<Rightarrow> error + jsval" where
  "file_url f =
     bindE (get f ''type'') (\<lambda>t.
       if t = JStr ''file'' then get (field f ''file'') ''url''
       else if t = JStr ''external'' then get (field f ''external'') ''url''
       else Inr JNull)"

definition normalizeFiles :: "jsval \<Rightarrow> error + jsval" where
  "normalizeFiles files =
     (case files of
        JArr fs \<Rightarrow> bindE (mapE file_url fs) (\<lambda>us. Inr (JArr (filter truthy us)))
      | _ \<Rightarrow> Inr (JArr []))"

definition normalizeRelation :: "jsval \<Rightarrow> error + jsval" where
  "normalizeRelation rel =
     (case rel of
        JArr rs \<Rightarrow>
          bindE (mapE (\<lambda>r. get r ''id'') rs) (\<lambda>ids. Inr (JArr (filter truthy ids)))
      | _ \<Rightarrow> Inr (JArr []))"

text \<open>\<open>(v || []).map((m) => m.name)\<close>: a truthy value that is no array has no \<open>map\<close>.\<close>

definition multi_select_names :: "jsval \<Rightarrow> error + jsval" where
  "multi_select_names v =
     (if \<not> truthy v then Inr (JArr [])
      else (case v of
              JArr ms \<Rightarrow> bindE (mapE (\<lambda>m. get m ''name'') ms) (\<lambda>ns. Inr (JArr ns))
            | _ \<Rightarrow> Inl TypeError))"

lemma size_field: "size (field v k) \<le> size v"
  apply (cases v; simp add: field_def split: option.splits)
  apply (auto dest!: map_of_SomeD)
  apply (rule le_SucI)
  apply (rule size_list_estimation')
   apply assumption
  apply simp
  done

lemma mapE_cong [fundef_cong]:
  "xs = ys \<Longrightarrow> (\<And>x. x \<in> set ys \<Longrightarrow> f x = g x) \<Longrightarrow> mapE f xs = mapE g ys"
  by (induction ys arbitrary: xs) (auto split: sum.splits)

lemma bindE_cong [fundef_cong]:
  "m = m' \<Longrightarrow> (\<And>v. m' = Inr v \<Longrightarrow> f v = g v) \<Longrightarrow> bindE m f = bindE m' g"
  by (auto simp: bindE_def split: sum.splits)

text \<open>
  \<open>normalizeRollup\<close>. An element of type \<open>rollup\<close> inside an array rollup is normalized by
  the function itself, so the recursion follows the nesting of the value.
\<close>

function normalizeRollup :: "jsval \<Rightarrow> error + jsval" where
  "normalizeRollup rollup =
     (if \<not> truthy rollup then Inr JNull
      else if field rollup ''type'' = JStr ''number'' then
        Inr (coalesce (field rollup ''number'') JNull)
      else if field rollup ''type'' = JStr ''date'' then
        Inr (coalesce (field (field rollup ''date'') ''start'') JNull)
      else if field rollup ''type'' = JStr ''array'' then
        (if \<not> truthy (field rollup ''array'') then Inr (JArr [])
         else (case field rollup ''array'' of
                 JArr els \<Rightarrow>
                   bindE (mapE (\<lambda>el.
                       if \<not> truthy el \<or> \<not> truthy (field el ''type'') then Inr JNull
                       else if field el ''type'' = JStr ''title'' then
                         normalizeRichText (field el ''title'')
                       else if field el ''type'' = JStr ''rich_text'' then
                         normalizeRichText (field el ''rich_text'')
                       else if field el ''type'' = JStr ''people'' then
                         Inr (normalizePeople (field el ''people''))
                       else if field el ''type'' = JStr ''relation'' then
                         normalizeRelation (field el ''relation'')
                       else if field el ''type'' = JStr ''files'' then
                         normalizeFiles (field el ''files'')
                       else if field el ''type'' = JStr ''number'' then
                         Inr (coalesce (field el ''number'') JNull)
                       else if field el ''type'' = JStr ''date'' then
                         Inr (coalesce (field (field el ''date'') ''start'') JNull)
                       else if field el ''type'' = JStr ''rollup'' then
                         normalizeRollup (field el ''rollup'')
                       else if field el ''type'' = JStr ''select'' then
                         Inr (coalesce (field (field el ''select'') ''name'') JNull)
                       else if field el ''type'' = JStr ''multi_select'' then
                         multi_select_names (field el ''multi_select'')
                       else if field el ''type'' = JStr ''status'' then
                         Inr (coalesce (field (field el ''status'') ''name'') JNull)
                       else Inr JNull) els)
                     (\<lambda>vs. Inr (JArr (filter (\<lambda>v. v \<noteq> JNull) vs)))
               | _ \<Rightarrow> Inl TypeError))
      else Inr JNull)"
  by pat_completeness auto
termination
proof (relation "measure size", goal_cases)
  case 1
  show ?case by simp
next
  case (2 rollup els el)
  have "size (field el ''rollup'') \<le> size el" by (rule size_field)
  also have "size el < size (JArr els)"
    using 2 by (simp add: less_Suc_eq_le size_list_estimation')
  also have "\<dots> \<le> size rollup"
    using 2 size_field [of rollup "''array''"] by simp
  finally show ?case by simp
qed

declare normalizeRollup.simps [simp del]

definition formula_value :: "jsval \<Rightarrow> jsval" where
  "formula_value f =
     (if \<not> truthy f then JNull
      else if field f ''type'' = JStr ''string'' then coalesce (field f ''string'') JNull
      else if field f ''type'' = JStr ''number'' then coalesce (field f ''number'') JNull
      else if field f ''type'' = JStr ''boolean'' then coalesce (field f ''boolean'') JNull
      else if field f ''type'' = JStr ''date'' then
        coalesce (field (field f ''date'') ''start'') JNull
      else JNull)"

definition extractPropValue :: "jsval \<Rightarrow> error + jsval" where
  "extractPropValue prop =
     (if \<not> truthy prop \<or> \<not> truthy (field prop ''type'') then Inr JNull
      else if field prop ''type'' = JStr ''title'' then normalizeRichText (field prop ''title'')
      else if field prop ''type'' = JStr ''rich_text'' then
        normalizeRichText (field prop ''rich_text'')
      else if field prop ''type'' = JStr ''select'' then
        Inr (coalesce (field (field prop ''select'') ''name'') JNull)
      else if field prop ''type'' = JStr ''multi_select'' then
        multi_select_names (field prop ''multi_select'')
      else if field prop ''type'' = JStr ''url'' then Inr (coalesce (field prop ''url'') JNull)
      else if field prop ''type'' = JStr ''date'' then
        Inr (coalesce (field (field prop ''date'') ''start'') JNull)
      else if field prop ''type'' = JStr ''email'' then
        Inr (coalesce (field prop ''email'') JNull)
      else if field prop ''type'' = JStr ''phone_number'' then
        Inr (coalesce (field prop ''phone_number'') JNull)
      else if field prop ''type'' = JStr ''number'' then
        Inr (coalesce (field prop ''number'') JNull)
      else if field prop ''type'' = JStr ''checkbox'' then
        Inr (JBool (truthy (field prop ''checkbox'')))
      else if field prop ''type'' = JStr ''people'' then
        Inr (normalizePeople (field prop ''people''))
      else if field prop ''type'' = JStr ''files'' then normalizeFiles (field prop ''files'')
      else if field prop ''type'' = JStr ''relation'' then
        normalizeRelation (field prop ''relation'')
      else if field prop ''type'' = JStr ''status'' then
        Inr (coalesce (field (field prop ''status'') ''name'') JNull)
      else if field prop ''type'' = JStr ''formula'' then
        Inr (formula_value (field prop ''formula''))
      else if field prop ''type'' = JStr ''rollup'' then normalizeRollup (field prop ''rollup'')
      else Inr JNull)"

section \<open>Slug and permalink\<close>

text \<open>
  A page as the remote returns it: its identifier, its properties in enumeration order,
  and the optional cover and icon objects.
\<close>

record page =
  page_id :: string
  page_properties :: "(string \<times> jsval) list"
  page_cover :: jsval
  page_icon :: jsval

text \<open>
  The slug rule of a source. \<open>None\<close> is a field the configuration leaves out.
\<close>

record slugconf =
  slug_from :: "string option"
  slug_fallback :: "string option"
  slug_lower :: "bool option"

subsection \<open>The slugify package\<close>

text \<open>
  \<open>toSlug\<close> calls the package \<open>slugify\<close> with the options \<open>strict\<close>, \<open>trim\<close>,
  \<open>locale: "fr"\<close> and a \<open>remove\<close> class. The package is not part of the repository; the
  definitions below follow its algorithm on the code units modelled here: every character
  is replaced through the locale table, then the character table (the entries for ASCII
  characters are given; other characters pass unchanged), a replacement equal to the
  separator becomes a space, the \<open>remove\<close> class is deleted, strict mode deletes whatever
  is not an ASCII letter, a digit or white space, the result is trimmed, every run of white
  space becomes one separator, and the result is put in lower case on request.
\<close>

definition slugify_locale_fr :: "char \<Rightarrow> string option" where
  "slugify_locale_fr c =
     (if c = CHR ''%'' then Some ''pourcent''
      else if c = CHR ''&'' then Some ''et''
      else if c = CHR ''<'' then Some ''plus petit''
      else if c = CHR ''>'' then Some ''plus grand''
      else if c = CHR ''|'' then Some ''ou''
      else None)"

definition slugify_charMap :: "char \<Rightarrow> string option" where
  "slugify_charMap c =
     (if c = CHR ''$'' then Some ''dollar''
      else if c = CHR ''%'' then Some ''percent''
      else if c = CHR ''&'' then Some ''and''
      else if c = CHR ''<'' then Some ''less''
      else if c = CHR ''>'' then Some ''greater''
      else if c = CHR ''|'' then Some ''or''
      else None)"

text \<open>The class \<open>[*+~.()'":@/?]\<close> that \<open>toSlug\<close> passes as \<open>remove\<close>.\<close>

definition toSlug_remove :: "char \<Rightarrow> bool" where
  "toSlug_remove c =
     (of_char c \<in> {42, 43, 126, 46, 40, 41, 39, 34, 58, 64, 47, 63 :: nat})"

definition is_alnum :: "char \<Rightarrow> bool" where
  "is_alnum c =
     (let n = (of_char c :: nat)
      in (48 \<le> n \<and> n \<le> 57) \<or> (65 \<le> n \<and> n \<le> 90) \<or> (97 \<le> n \<and> n \<le> 122))"

definition to_lower :: "char \<Rightarrow> char" where
  "to_lower c =
     (let n = (of_char c :: nat) in if 65 \<le> n \<and> n \<le> 90 then char_of (n + 32) else c)"

definition slugify_char :: "char \<Rightarrow> string" where
  "slugify_char c =
     (let appendChar =
            (case slugify_locale_fr c of
               Some s \<Rightarrow> s
             | None \<Rightarrow> (case slugify_charMap c of Some s \<Rightarrow> s | None \<Rightarrow> [c]));
          appendChar' = (if appendChar = ''-'' then '' '' else appendChar)
      in filter (\<lambda>d. \<not> toSlug_remove d) appendChar')"

function collapse_ws :: "string \<Rightarrow> string" where
  "collapse_ws [] = []"
| "collapse_ws (c # cs) =
     (if js_ws c then CHR ''-'' # collapse_ws (dropWhile js_ws cs) else c # collapse_ws cs)"
  by pat_completeness auto
termination
  by (relation "measure length") (auto simp: le_imp_less_Suc length_dropWhile_le)

definition slugify :: "string \<Rightarrow> bool \<Rightarrow> string" where
  "slugify str lower =
     (let slug = concat (map slugify_char str);
          strict = filter (\<lambda>c. is_alnum c \<or> js_ws c) slug;
          replaced = collapse_ws (js_trim strict)
      in if lower then map to_lower replaced else replaced)"

text \<open>\<open>toSlug(str, opts)\<close>; the caller always passes a string.\<close>

definition toSlug :: "string \<Rightarrow> bool \<Rightarrow> string" where
  "toSlug str lower = slugify str lower"

subsection \<open>Title and slug\<close>

definition title_text :: "jsval list \<Rightarrow> error + string option" where
  "title_text ts =
     bindE (mapE (\<lambda>t. bindE (get t ''plain_text'') (\<lambda>p. Inr (js_or p (JStr [])))) ts)
       (\<lambda>parts. let s = js_trim (join_empty parts) in Inr (if s = [] then None else Some s))"

fun first_title :: "(string \<times> jsval) list \<Rightarrow> error + string option" where
  "first_title [] = Inr None"
| "first_title ((name, prop) # rest) =
     (if field prop ''type'' = JStr ''title'' then
        (case field prop ''title'' of
           JArr (t # ts) \<Rightarrow> title_text (t # ts)
         | _ \<Rightarrow> first_title rest)
      else first_title rest)"

definition getFirstTitleText :: "page \<Rightarrow> error + string option" where
  "getFirstTitleText p = first_title (page_properties p)"

definition prop_lookup :: "(string \<times> jsval) list \<Rightarrow> string \<Rightarrow> jsval" where
  "prop_lookup props k = (case map_of props k of Some v \<Rightarrow> v | None \<Rightarrow> JUndefined)"

definition slug_base :: "page \<Rightarrow> slugconf \<Rightarrow> error + jsval" where
  "slug_base p sc =
     (if slug_from sc = Some ''title'' then
        bindE (getFirstTitleText p) (\<lambda>t. Inr (case t of Some s \<Rightarrow> JStr s | None \<Rightarrow> JNull))
      else if slug_from sc = Some ''id'' then Inr (JStr (page_id p))
      else (case slug_from sc of
              Some f \<Rightarrow>
                if f \<noteq> [] \<and> truthy (prop_lookup (page_properties p) f)
                then extractPropValue (prop_lookup (page_properties p) f)
                else Inr JNull
            | None \<Rightarrow> Inr JNull))"

definition is_blank_base :: "jsval \<Rightarrow> bool" where
  "is_blank_base base = (\<not> truthy base \<or> js_trim (js_String base) = [])"

definition buildSlug :: "page \<Rightarrow> slugconf \<Rightarrow> error + string" where
  "buildSlug p sc =
     bindE (slug_base p sc) (\<lambda>base.
       bindE (if is_blank_base base then
                (if slug_fallback sc = Some ''id'' then Inr (JStr (page_id p))
                 else bindE (getFirstTitleText p) (\<lambda>t.
                        Inr (case t of Some s \<Rightarrow> JStr s | None \<Rightarrow> JStr (page_id p))))
              else Inr base)
         (\<lambda>base'. Inr (toSlug (js_String base') (slug_lower sc \<noteq> Some False))))"

subsection \<open>String replacement\<close>

text \<open>
  \<open>subject.replace(pattern, replacement)\<close> with a string pattern replaces the first
  occurrence only, and expands \<open>$$\<close>, \<open>$&\<close>, \<open>$`\<close> and \<open>$'\<close> in the replacement.
\<close>

fun find_sub :: "string \<Rightarrow> string \<Rightarrow> (string \<times> string) option" where
  "find_sub pat [] = (if pat = [] then Some ([], []) else None)"
| "find_sub pat (c # cs) =
     (if take (length pat) (c # cs) = pat then Some ([], drop (length pat) (c # cs))
      else (case find_sub pat cs of
              None \<Rightarrow> None
            | Some (pre, post) \<Rightarrow> Some (c # pre, post)))"

fun expand_dollar :: "string \<Rightarrow> string \<Rightarrow> string \<Rightarrow> string \<Rightarrow> string" where
  "expand_dollar matched pre post [] = []"
| "expand_dollar matched pre post [c] = [c]"
| "expand_dollar matched pre post (c # d # ds) =
     (if c = CHR ''$'' then
        (if d = CHR ''$'' then CHR ''$'' # expand_dollar matched pre post ds
         else if d = CHR ''&'' then matched @ expand_dollar matched pre post ds
         else if d = CHR 0x60 then pre @ expand_dollar matched pre post ds
         else if d = CHR 0x27 then post @ expand_dollar matched pre post ds
         else c # expand_dollar matched pre post (d # ds))
      else c # expand_dollar matched pre post (d # ds))"

definition js_replace :: "string \<Rightarrow> string \<Rightarrow> string \<Rightarrow> string" where
  "js_replace subject pat repl =
     (case find_sub pat subject of
        None \<Rightarrow> subject
      | Some (pre, post) \<Rightarrow> pre @ expand_dollar pat pre post repl @ post)"

definition renderPermalink :: "string \<Rightarrow> string \<Rightarrow> string" where
  "renderPermalink tpl slug = js_replace tpl ''{slug}'' slug"

section \<open>Configuration\<close>

text \<open>
  One entry of \<open>config.databases\<close>. \<open>None\<close> is a field the configuration leaves out; an
  empty string is as falsy as a missing one.
\<close>

record dbconf =
  databaseId :: "string option"
  srcDir :: "string option"
  srcDirImages :: "string option"
  basePath :: "string option"
  conf_layout :: "string option"
  excludeProperties :: "string list"
  conf_slug :: "slugconf option"
  conf_permalink :: "string option"
  frontMatter :: "(string \<times> jsval) list"
  cleanBeforeSync :: "bool option"

record dbcfg =
  cfg_dir :: string
  cfg_imagesDir :: string
  cfg_basePath :: string
  cfg_layout :: string
  cfg_excludeProps :: "string set"
  cfg_slugConf :: slugconf
  cfg_permalinkTpl :: string
  cfg_fmExtras :: "(string \<times> jsval) list"
  cfg_cleanBeforeSync :: bool

definition present :: "string option \<Rightarrow> bool" where
  "present s = (case s of Some (c # cs) \<Rightarrow> True | _ \<Rightarrow> False)"

text \<open>\<open>path.join\<close> on two segments that need no normalization.\<close>

definition path_join :: "string \<Rightarrow> string \<Rightarrow> string" where
  "path_join a b = a @ ''/'' @ b"

definition default_slugConf :: slugconf where
  "default_slugConf = \<lparr>slug_from = Some ''title'', slug_fallback = Some ''id'', slug_lower = Some True\<rparr>"

definition detectDbConfig :: "string \<Rightarrow> dbconf \<Rightarrow> error + dbcfg" where
  "detectDbConfig cwd dbConf =
     (if \<not> present (srcDir dbConf) then Inl (MissingField ''srcDir'')
      else if \<not> present (basePath dbConf) then Inl (MissingField ''basePath'')
      else if \<not> present (conf_layout dbConf) then Inl (MissingField ''layout'')
      else Inr \<lparr>
        cfg_dir = path_join cwd (the (srcDir dbConf)),
        cfg_imagesDir =
          path_join cwd
            (if present (srcDirImages dbConf) then the (srcDirImages dbConf)
             else ''src/images/notion''),
        cfg_basePath = the (basePath dbConf),
        cfg_layout = the (conf_layout dbConf),
        cfg_excludeProps = set (excludeProperties dbConf),
        cfg_slugConf = (case conf_slug dbConf of Some sc \<Rightarrow> sc | None \<Rightarrow> default_slugConf),
        cfg_permalinkTpl =
          (if present (conf_permalink dbConf) then the (conf_permalink dbConf)
           else the (basePath dbConf) @ ''/{slug}/''),
        cfg_fmExtras = frontMatter dbConf,
        cfg_cleanBeforeSync = (cleanBeforeSync dbConf \<noteq> Some False)
      \<rparr>)"

subsection \<open>Database identifiers\<close>

definition is_hex :: "char \<Rightarrow> bool" where
  "is_hex c =
     (let n = (of_char c :: nat) in (48 \<le> n \<and> n \<le> 57) \<or> (97 \<le> n \<and> n \<le> 102))"

text \<open>\<open>[a-f0-9]{32}\<close> at the start of a string.\<close>

definition hex32_at :: "string \<Rightarrow> string option" where
  "hex32_at s =
     (if 32 \<le> length s \<and> list_all is_hex (take 32 s) then Some (take 32 s) else None)"

fun find_hex32 :: "string \<Rightarrow> string option" where
  "find_hex32 [] = None"
| "find_hex32 (c # cs) =
     (case hex32_at (c # cs) of Some h \<Rightarrow> Some h | None \<Rightarrow> find_hex32 cs)"

definition extractDatabaseId :: "string \<Rightarrow> error + string" where
  "extractDatabaseId idOrUrl =
     (if length idOrUrl = 32 \<and> list_all is_hex idOrUrl then Inr idOrUrl
      else (case find_hex32 idOrUrl of
              Some h \<Rightarrow> Inr h
            | None \<Rightarrow> Inl (InvalidDatabaseId idOrUrl)))"

section \<open>The world of a run\<close>

text \<open>
  The remote and the libraries are read-only during a run: the Notion client (database
  metadata, one page of a paged listing, the Markdown of a page), the bytes behind a URL,
  \<open>yaml.dump\<close>, the MD5 digest in hexadecimal, the working directory, the clock, and the
  file operations that fail (permissions, a full disk).
\<close>

datatype http_response = NetError | Response nat string

datatype fsop =
    Mkdir string
  | Readdir string
  | Stat string string
  | Unlink string string
  | Create string string
  | Rename string string string
  | WriteFile string string

record env =
  env_cwd :: string
  env_now :: nat
  yaml_dump :: "(string \<times> jsval) list \<Rightarrow> string"
  md5_hex :: "string \<Rightarrow> string"
  db_meta :: "string \<Rightarrow> error + jsval"
  db_query :: "string \<Rightarrow> string option \<Rightarrow> error + (page list \<times> bool \<times> string option)"
  page_markdown :: "string \<Rightarrow> error + string"
  http_get :: "string \<Rightarrow> http_response"
  fs_fault :: "fsop \<Rightarrow> bool"

text \<open>
  What a run changes: the file system (a directory is the list of its entries, \<open>None\<close>
  when it does not exist), the image cache of the process, the remote calls made so far
  and the pages written so far (path, front matter block, body), oldest first.
\<close>

datatype entry = File string | SubDir

datatype call =
    MetaFetch string
  | PageQuery string "string option"
  | MarkdownFetch string
  | Download string

record world =
  fs :: "string \<Rightarrow> (string \<times> entry) list option"
  imageCache :: "string \<Rightarrow> string option"
  calls :: "call list"
  writes :: "(string \<times> string \<times> string) list"

definition log_call :: "call \<Rightarrow> world \<Rightarrow> world" where
  "log_call c w = w\<lparr>calls := calls w @ [c]\<rparr>"

subsection \<open>File operations\<close>

definition listing :: "world \<Rightarrow> string \<Rightarrow> (string \<times> entry) list" where
  "listing w d = (case fs w d of Some es \<Rightarrow> es | None \<Rightarrow> [])"

definition existsDir :: "world \<Rightarrow> string \<Rightarrow> bool" where
  "existsDir w d = (fs w d \<noteq> None)"

definition existsFile :: "world \<Rightarrow> string \<Rightarrow> string \<Rightarrow> bool" where
  "existsFile w d n = (map_of (listing w d) n \<noteq> None)"

fun set_entry :: "string \<Rightarrow> entry \<Rightarrow> (string \<times> entry) list \<Rightarrow> (string \<times> entry) list" where
  "set_entry n e [] = [(n, e)]"
| "set_entry n e ((m, x) # es) = (if m = n then (n, e) # es else (m, x) # set_entry n e es)"

definition del_entry :: "string \<Rightarrow> (string \<times> entry) list \<Rightarrow> (string \<times> entry) list" where
  "del_entry n es = filter (\<lambda>(m, x). m \<noteq> n) es"

definition ensureDir :: "env \<Rightarrow> string \<Rightarrow> world \<Rightarrow> error + world" where
  "ensureDir ev d w =
     (if existsDir w d then Inr w
      else if fs_fault ev (Mkdir d) then Inl (FsError ''mkdir'')
      else Inr (w\<lparr>fs := (fs w)(d \<mapsto> [])\<rparr>))"

text \<open>
  Writing a file fails when the operation is faulty, when the directory is missing, and
  when the name is taken by a directory.
\<close>

definition put_file :: "string \<Rightarrow> string \<Rightarrow> string \<Rightarrow> world \<Rightarrow> error + world" where
  "put_file d n content w =
     (case fs w d of
        None \<Rightarrow> Inl (FsError ''ENOENT'')
      | Some es \<Rightarrow>
          if map_of es n = Some SubDir then Inl (FsError ''EISDIR'')
          else Inr (w\<lparr>fs := (fs w)(d \<mapsto> set_entry n (File content) es)\<rparr>))"

definition writeFileSync :: "env \<Rightarrow> string \<Rightarrow> string \<Rightarrow> string \<Rightarrow> world \<Rightarrow> error + world" where
  "writeFileSync ev d n content w =
     (if fs_fault ev (WriteFile d n) then Inl (FsError ''write'') else put_file d n content w)"

definition unlinkSync :: "env \<Rightarrow> string \<Rightarrow> string \<Rightarrow> world \<Rightarrow> error + world" where
  "unlinkSync ev d n w =
     (if fs_fault ev (Unlink d n) then Inl (FsError ''unlink'')
      else (case map_of (listing w d) n of
              Some (File c) \<Rightarrow> Inr (w\<lparr>fs := (fs w)(d \<mapsto> del_entry n (listing w d))\<rparr>)
            | Some SubDir \<Rightarrow> Inl (FsError ''EISDIR'')
            | None \<Rightarrow> Inl (FsError ''ENOENT'')))"

definition renameSync :: "env \<Rightarrow> string \<Rightarrow> string \<Rightarrow> string \<Rightarrow> world \<Rightarrow> error + world" where
  "renameSync ev d old new w =
     (if fs_fault ev (Rename d old new) then Inl (FsError ''rename'')
      else (case map_of (listing w d) old of
              None \<Rightarrow> Inl (FsError ''ENOENT'')
            | Some e \<Rightarrow>
                if map_of (listing w d) new = Some SubDir \<and> old \<noteq> new
                then Inl (FsError ''EISDIR'')
                else Inr (w\<lparr>fs := (fs w)(d \<mapsto> set_entry new e (del_entry old (listing w d)))\<rparr>)))"

section \<open>Images\<close>

fun split_on :: "char \<Rightarrow> string \<Rightarrow> string list" where
  "split_on c [] = [[]]"
| "split_on c (x # xs) =
     (if x = c then [] # split_on c xs
      else (case split_on c xs of
              y # ys \<Rightarrow> (x # y) # ys
            | [] \<Rightarrow> [[x]]))"

definition segments :: "string \<Rightarrow> string list" where
  "segments p = filter (\<lambda>s. s \<noteq> []) (split_on CHR ''/'' p)"

fun drop_common :: "string list \<Rightarrow> string list \<Rightarrow> string list \<times> string list" where
  "drop_common (x # xs) (y # ys) = (if x = y then drop_common xs ys else (x # xs, y # ys))"
| "drop_common xs ys = (xs, ys)"

text \<open>\<open>path.relative(from, to)\<close> on two absolute paths without dot segments.\<close>

definition path_relative :: "string \<Rightarrow> string \<Rightarrow> string" where
  "path_relative from to =
     (case drop_common (segments from) (segments to) of
        (f, t) \<Rightarrow> join_with ''/'' (replicate (length f) ''..'' @ t))"

definition ends_with :: "string \<Rightarrow> string \<Rightarrow> bool" where
  "ends_with s suffix = (length suffix \<le> length s \<and> drop (length s - length suffix) s = suffix)"

definition image_exts :: "string list" where
  "image_exts = [''jpg'', ''jpeg'', ''png'', ''gif'', ''webp'', ''svg'']"

definition getImageExtension :: "string \<Rightarrow> string" where
  "getImageExtension url =
     (let urlWithoutQuery = map to_lower (takeWhile (\<lambda>c. c \<noteq> CHR ''?'') url)
      in (case filter (\<lambda>e. ends_with urlWithoutQuery (CHR ''.'' # e)) image_exts of
            e # es \<Rightarrow> e
          | [] \<Rightarrow> ''jpg''))"

text \<open>
  \<open>downloadImage\<close>: the write stream opens the destination, the request is sent, and the
  promise settles. It rejects when the stream fails, when the request fails (the
  destination is then unlinked, whatever that unlink does) and when the status is not 200
  (the destination then stays, empty). Otherwise the body is in the file and the promise
  resolves with the first eight digits of the digest.
\<close>

definition downloadImage ::
  "env \<Rightarrow> string \<Rightarrow> string \<Rightarrow> string \<Rightarrow> world \<Rightarrow> (error + string) \<times> world" where
  "downloadImage ev url d n w =
     (let w1 = log_call (Download url) w
      in if fs_fault ev (Create d n) then (Inl (FsError ''create''), w1)
         else (case put_file d n [] w1 of
                 Inl e \<Rightarrow> (Inl e, w1)
               | Inr w2 \<Rightarrow>
                   (case http_get ev url of
                      NetError \<Rightarrow>
                        (Inl (DownloadError url),
                         (case unlinkSync ev d n w2 of Inl e \<Rightarrow> w2 | Inr w3 \<Rightarrow> w3))
                    | Response status body \<Rightarrow>
                        if status \<noteq> 200 then (Inl (DownloadError url), w2)
                        else (case put_file d n body w2 of
                                Inl e \<Rightarrow> (Inl e, w2)
                              | Inr w3 \<Rightarrow> (Inr (take 8 (md5_hex ev body)), w3)))))"

definition image_filename :: "string \<Rightarrow> string \<Rightarrow> string \<Rightarrow> string \<Rightarrow> string" where
  "image_filename pageSlug imageIndex contentHash ext =
     pageSlug @ ''-'' @ imageIndex @ ''-'' @ contentHash @ ''.'' @ ext"

definition image_relative :: "env \<Rightarrow> string \<Rightarrow> string \<Rightarrow> string" where
  "image_relative ev imagesDir filename =
     CHR ''/'' # path_relative (path_join (env_cwd ev) ''src'') (path_join imagesDir filename)"

text \<open>The body of the \<open>try\<close> block of \<open>saveNotionImage\<close>; \<open>Inl\<close> is what it throws.\<close>

definition save_image_try ::
  "env \<Rightarrow> string \<Rightarrow> string \<Rightarrow> string \<Rightarrow> string \<Rightarrow> world \<Rightarrow> (error + string) \<times> world" where
  "save_image_try ev imageUrl pageSlug imageIndex imagesDir w =
     (case ensureDir ev imagesDir w of
        Inl e \<Rightarrow> (Inl e, w)
      | Inr w1 \<Rightarrow>
          (let ext = getImageExtension imageUrl;
               tempFilename = ''temp-'' @ nat_to_str (env_now ev) @ ''-'' @ imageIndex @ ''.'' @ ext
           in (case downloadImage ev imageUrl imagesDir tempFilename w1 of
                 (Inl e, w2) \<Rightarrow> (Inl e, w2)
               | (Inr contentHash, w2) \<Rightarrow>
                   (let filename = image_filename pageSlug imageIndex contentHash ext;
                        relativePath = image_relative ev imagesDir filename
                    in if existsFile w2 imagesDir filename then
                         (case unlinkSync ev imagesDir tempFilename w2 of
                            Inl e \<Rightarrow> (Inl e, w2)
                          | Inr w3 \<Rightarrow>
                              (Inr relativePath,
                               w3\<lparr>imageCache := (imageCache w3)(imageUrl \<mapsto> relativePath)\<rparr>))
                       else
                         (case renameSync ev imagesDir tempFilename filename w2 of
                            Inl e \<Rightarrow> (Inl e, w2)
                          | Inr w3 \<Rightarrow>
                              (Inr relativePath,
                               w3\<lparr>imageCache := (imageCache w3)(imageUrl \<mapsto> relativePath)\<rparr>))))))"

definition saveNotionImage ::
  "env \<Rightarrow> string \<Rightarrow> string \<Rightarrow> string \<Rightarrow> string \<Rightarrow> world \<Rightarrow> string \<times> world" where
  "saveNotionImage ev imageUrl pageSlug imageIndex imagesDir w =
     (case imageCache w imageUrl of
        Some cached \<Rightarrow> (cached, w)
      | None \<Rightarrow>
          (case save_image_try ev imageUrl pageSlug imageIndex imagesDir w of
             (Inl e, w') \<Rightarrow> (imageUrl, w')
           | (Inr relativePath, w') \<Rightarrow> (relativePath, w')))"

section \<open>Page bodies\<close>

text \<open>
  The link pattern \<open>!?\[([^\]]*)\]\(([^)]+)\)\<close> at the start of a string: the whole
  match, the text, the target and what follows the match.
\<close>

definition bracket_at :: "string \<Rightarrow> (string \<times> string \<times> string) option" where
  "bracket_at s =
     (case s of
        c # cs \<Rightarrow>
          if c = CHR ''['' then
            (let altText = takeWhile (\<lambda>x. x \<noteq> CHR '']'') cs;
                 r1 = dropWhile (\<lambda>x. x \<noteq> CHR '']'') cs
             in (case r1 of
                   a # b # r2 \<Rightarrow>
                     if b = CHR ''('' then
                       (let url = takeWhile (\<lambda>x. x \<noteq> CHR '')'') r2;
                            r3 = dropWhile (\<lambda>x. x \<noteq> CHR '')'') r2
                        in if url \<noteq> [] \<and> r3 \<noteq> [] then Some (altText, url, tl r3) else None)
                     else None
                 | _ \<Rightarrow> None))
          else None
      | [] \<Rightarrow> None)"

definition link_at :: "string \<Rightarrow> (string \<times> string \<times> string \<times> string) option" where
  "link_at s =
     (case s of
        c # cs \<Rightarrow>
          if c = CHR ''!'' then
            (case bracket_at cs of
               Some (altText, url, rest) \<Rightarrow>
                 Some (take (length s - length rest) s, altText, url, rest)
             | None \<Rightarrow> None)
          else
            (case bracket_at s of
               Some (altText, url, rest) \<Rightarrow>
                 Some (take (length s - length rest) s, altText, url, rest)
             | None \<Rightarrow> None)
      | [] \<Rightarrow> None)"

lemma bracket_at_shorter:
  assumes "bracket_at s = Some (alt, url, rest)"
  shows "length rest < length s"
proof -
  from assms obtain c cs a b r2 where s: "s = c # cs"
    and r1: "dropWhile (\<lambda>x. x \<noteq> CHR '']'') cs = a # b # r2"
    and rest: "rest = tl (dropWhile (\<lambda>x. x \<noteq> CHR '')'') r2)"
    by (auto simp: bracket_at_def Let_def split: list.splits if_splits)
  have "length (a # b # r2) \<le> length cs"
    using length_dropWhile_le [of "\<lambda>x. x \<noteq> CHR '']''" cs] r1 by simp
  moreover have "length rest \<le> length r2"
    using length_dropWhile_le [of "\<lambda>x. x \<noteq> CHR '')''" r2] rest by simp
  ultimately show ?thesis using s by simp
qed

lemma link_at_shorter:
  "link_at s = Some (full, alt, url, rest) \<Longrightarrow> length rest < length s"
  by (auto simp: link_at_def split: list.splits if_splits option.splits
      dest!: bracket_at_shorter)

text \<open>
  The loop over \<open>linkRegex.exec(markdown)\<close>: the leftmost match from the current
  position, then on from the end of that match.
\<close>

function scan_links :: "string \<Rightarrow> (string \<times> string \<times> string) list" where
  "scan_links [] = []"
| "scan_links (c # cs) =
     (case link_at (c # cs) of
        Some (fullMatch, altText, url, rest) \<Rightarrow> (fullMatch, altText, url) # scan_links rest
      | None \<Rightarrow> scan_links cs)"
  by pat_completeness auto
termination
  by (relation "measure length") (auto dest: link_at_shorter)

definition starts_with :: "string \<Rightarrow> string \<Rightarrow> bool" where
  "starts_with s p = (take (length p) s = p)"

definition strip_prefix :: "string \<Rightarrow> string \<Rightarrow> string option" where
  "strip_prefix p s = (if starts_with s p then Some (drop (length p) s) else None)"

definition str_includes :: "string \<Rightarrow> string \<Rightarrow> bool" where
  "str_includes s p = (find_sub p s \<noteq> None)"

definition is_seg :: "char \<Rightarrow> bool" where
  "is_seg c = (is_alnum c \<or> c = CHR ''-'')"

text \<open>
  The pattern \<open>https?:\/\/(?:www\.)?notion\.so\/(?:[a-zA-Z0-9-]+\/)?([a-f0-9]{32})\<close> at the
  start of a string, and its first match anywhere in a string.
\<close>

definition notion_url_at :: "string \<Rightarrow> string option" where
  "notion_url_at s =
     (case strip_prefix ''http'' s of
        None \<Rightarrow> None
      | Some s1 \<Rightarrow>
          (let s2 = (case strip_prefix ''s'' s1 of Some t \<Rightarrow> t | None \<Rightarrow> s1)
           in (case strip_prefix ''://'' s2 of
                 None \<Rightarrow> None
               | Some s3 \<Rightarrow>
                   (let s4 = (case strip_prefix ''www.'' s3 of Some t \<Rightarrow> t | None \<Rightarrow> s3)
                    in (case strip_prefix ''notion.so/'' s4 of
                          None \<Rightarrow> None
                        | Some s5 \<Rightarrow>
                            (let seg = takeWhile is_seg s5;
                                 r = dropWhile is_seg s5
                             in (case (if seg \<noteq> [] \<and> starts_with r ''/''
                                       then hex32_at (tl r) else None) of
                                   Some h \<Rightarrow> Some h
                                 | None \<Rightarrow> hex32_at s5)))))))"

fun find_notion_url :: "string \<Rightarrow> string option" where
  "find_notion_url [] = None"
| "find_notion_url (c # cs) =
     (case notion_url_at (c # cs) of Some h \<Rightarrow> Some h | None \<Rightarrow> find_notion_url cs)"

definition image_markup :: "string \<Rightarrow> string \<Rightarrow> string" where
  "image_markup altText localPath = ''!['' @ altText @ '']('' @ localPath @ '')''"

definition link_markup :: "string \<Rightarrow> string \<Rightarrow> string" where
  "link_markup altText localPermalink = ''['' @ altText @ '']('' @ localPermalink @ '')''"

definition is_notion_asset :: "string \<Rightarrow> bool" where
  "is_notion_asset url =
     (str_includes url ''notion'' \<or> str_includes url ''secure.notion-static.com''
      \<or> str_includes url ''s3.us-west'')"

text \<open>
  The body of the scanning loop, one match after the other: the replacements queued so
  far and the world, which an image download changes.
\<close>

fun process_links ::
  "env \<Rightarrow> string \<Rightarrow> string \<Rightarrow> (string \<Rightarrow> string option) \<Rightarrow> (string \<times> string \<times> string) list
   \<Rightarrow> (string \<times> string) list \<Rightarrow> world \<Rightarrow> (string \<times> string) list \<times> world" where
  "process_links ev pageSlug imagesDir pageMap [] replacements w = (replacements, w)"
| "process_links ev pageSlug imagesDir pageMap ((fullMatch, altText, url) # ms) replacements w =
     (if starts_with fullMatch ''!'' then
        (if is_notion_asset url then
           (case saveNotionImage ev url pageSlug (nat_to_str (length replacements)) imagesDir w of
              (localPath, w') \<Rightarrow>
                process_links ev pageSlug imagesDir pageMap ms
                  (replacements @ [(fullMatch, image_markup altText localPath)]) w')
         else process_links ev pageSlug imagesDir pageMap ms replacements w)
      else
        (case find_notion_url url of
           Some notionId \<Rightarrow>
             (case pageMap notionId of
                Some localPermalink \<Rightarrow>
                  process_links ev pageSlug imagesDir pageMap ms
                    (replacements @ [(fullMatch, link_markup altText localPermalink)]) w
              | None \<Rightarrow> process_links ev pageSlug imagesDir pageMap ms replacements w)
         | None \<Rightarrow> process_links ev pageSlug imagesDir pageMap ms replacements w))"

text \<open>The replacements are applied last to first, each to the first occurrence of its original.\<close>

definition apply_replacements :: "string \<Rightarrow> (string \<times> string) list \<Rightarrow> string" where
  "apply_replacements markdown replacements =
     fold (\<lambda>(original, replacement) m. js_replace m original replacement)
       (rev replacements) markdown"

text \<open>
  \<open>pageBodyMarkdown\<close>. The only statement of its \<open>try\<close> block that throws is the
  conversion of the page, and the \<open>catch\<close> returns the empty body.
\<close>

definition pageBodyMarkdown ::
  "env \<Rightarrow> string \<Rightarrow> string \<Rightarrow> string \<Rightarrow> (string \<Rightarrow> string option) \<Rightarrow> world
   \<Rightarrow> string \<times> world" where
  "pageBodyMarkdown ev pageId pageSlug imagesDir pageMap w =
     (let w1 = log_call (MarkdownFetch pageId) w
      in (case page_markdown ev pageId of
            Inl e \<Rightarrow> ([], w1)
          | Inr markdown \<Rightarrow>
              (case process_links ev pageSlug imagesDir pageMap (scan_links markdown) [] w1 of
                 (replacements, w2) \<Rightarrow> (apply_replacements markdown replacements, w2))))"

section \<open>Writing a page\<close>

text \<open>
  The front matter object: keys in insertion order, and an assignment to a key that is
  there keeps its place. The order in which \<open>yaml.dump\<close> enumerates the keys is part of
  \<open>yaml_dump\<close>.
\<close>

fun obj_set :: "string \<Rightarrow> jsval \<Rightarrow> (string \<times> jsval) list \<Rightarrow> (string \<times> jsval) list" where
  "obj_set k v [] = [(k, v)]"
| "obj_set k v ((m, x) # es) = (if m = k then (k, v) # es else (m, x) # obj_set k v es)"

text \<open>The body of the loop over \<open>Object.entries(page.properties)\<close>.\<close>

definition front_step ::
  "string set \<Rightarrow> string \<times> jsval \<Rightarrow> (string \<times> jsval) list \<Rightarrow> error + (string \<times> jsval) list" where
  "front_step excludeProps entry front =
     (case entry of
        (name, prop) \<Rightarrow>
          if name \<in> excludeProps then Inr front
          else (case extractPropValue prop of
                  Inl e \<Rightarrow> Inl e
                | Inr val \<Rightarrow>
                    if val \<noteq> JNull \<and> val \<noteq> JUndefined \<and> val \<noteq> JStr []
                    then Inr (obj_set (js_trim name) val front)
                    else Inr front))"

fun add_properties ::
  "string set \<Rightarrow> (string \<times> jsval) list \<Rightarrow> (string \<times> jsval) list
   \<Rightarrow> error + (string \<times> jsval) list" where
  "add_properties excludeProps [] front = Inr front"
| "add_properties excludeProps (entry # entries) front =
     (case front_step excludeProps entry front of
        Inl e \<Rightarrow> Inl e
      | Inr front' \<Rightarrow> add_properties excludeProps entries front')"

definition image_url :: "jsval \<Rightarrow> jsval" where
  "image_url img =
     (if field img ''type'' = JStr ''external'' then field (field img ''external'') ''url''
      else field (field img ''file'') ''url'')"

text \<open>
  \<open>saveNotionImage\<close> on the value found under \<open>url\<close>. A value that is no string is never
  in the cache and has no \<open>split\<close>: the \<open>try\<close> block makes the directory, throws, and the
  value itself comes back.
\<close>

definition save_image_value ::
  "env \<Rightarrow> jsval \<Rightarrow> string \<Rightarrow> string \<Rightarrow> string \<Rightarrow> world \<Rightarrow> jsval \<times> world" where
  "save_image_value ev v pageSlug imageIndex imagesDir w =
     (case v of
        JStr url \<Rightarrow>
          (case saveNotionImage ev url pageSlug imageIndex imagesDir w of
             (localPath, w') \<Rightarrow> (JStr localPath, w'))
      | _ \<Rightarrow> (v, (case ensureDir ev imagesDir w of Inl e \<Rightarrow> w | Inr w' \<Rightarrow> w')))"

definition add_cover ::
  "env \<Rightarrow> dbcfg \<Rightarrow> page \<Rightarrow> string \<Rightarrow> (string \<times> jsval) list \<Rightarrow> world
   \<Rightarrow> (string \<times> jsval) list \<times> world" where
  "add_cover ev dbCfg p pageSlug front w =
     (if truthy (page_cover p) \<and> truthy (image_url (page_cover p)) then
        (case save_image_value ev (image_url (page_cover p)) pageSlug ''cover''
                (cfg_imagesDir dbCfg) w of
           (localCoverPath, w') \<Rightarrow> (obj_set ''coverImage'' localCoverPath front, w'))
      else (front, w))"

definition add_icon ::
  "env \<Rightarrow> dbcfg \<Rightarrow> page \<Rightarrow> string \<Rightarrow> (string \<times> jsval) list \<Rightarrow> world
   \<Rightarrow> (string \<times> jsval) list \<times> world" where
  "add_icon ev dbCfg p pageSlug front w =
     (if truthy (page_icon p)
         \<and> (field (page_icon p) ''type'' = JStr ''external''
            \<or> field (page_icon p) ''type'' = JStr ''file'')
         \<and> truthy (image_url (page_icon p)) then
        (case save_image_value ev (image_url (page_icon p)) pageSlug ''icon''
                (cfg_imagesDir dbCfg) w of
           (localIconPath, w') \<Rightarrow> (obj_set ''iconImage'' localIconPath front, w'))
      else (front, w))"

definition toFrontMatterYaml :: "env \<Rightarrow> (string \<times> jsval) list \<Rightarrow> string" where
  "toFrontMatterYaml ev obj = ''---'' @ [CHR 0x0A] @ yaml_dump ev obj @ ''---'' @ [CHR 0x0A]"

definition initial_front :: "dbcfg \<Rightarrow> page \<Rightarrow> string \<Rightarrow> string \<Rightarrow> (string \<times> jsval) list" where
  "initial_front dbCfg p title permalink =
     fold (\<lambda>(k, v). obj_set k v) (cfg_fmExtras dbCfg)
       [(''layout'', JStr (cfg_layout dbCfg)),
        (''title'', JStr title),
        (''permalink'', JStr permalink),
        (''notionPageId'', JStr (page_id p))]"

text \<open>
  The front matter of a page: what \<open>writePage\<close> hands to \<open>toFrontMatterYaml\<close>, with the
  world after the cover and the icon.
\<close>

definition page_front ::
  "env \<Rightarrow> dbcfg \<Rightarrow> page \<Rightarrow> string \<Rightarrow> world \<Rightarrow> (error + (string \<times> jsval) list) \<times> world" where
  "page_front ev dbCfg p pageSlug w =
     (case getFirstTitleText p of
        Inl e \<Rightarrow> (Inl e, w)
      | Inr t \<Rightarrow>
          (let title = (case t of Some s \<Rightarrow> s | None \<Rightarrow> pageSlug);
               permalink = renderPermalink (cfg_permalinkTpl dbCfg) pageSlug
           in (case add_properties (cfg_excludeProps dbCfg) (page_properties p)
                      (initial_front dbCfg p title permalink) of
                 Inl e \<Rightarrow> (Inl e, w)
               | Inr front \<Rightarrow>
                   (case add_cover ev dbCfg p pageSlug front w of
                      (front', w') \<Rightarrow>
                        (case add_icon ev dbCfg p pageSlug front' w' of
                           (front'', w'') \<Rightarrow> (Inr front'', w''))))))"

definition md_name :: "string \<Rightarrow> string" where
  "md_name pageSlug = pageSlug @ ''.md''"

definition writePage ::
  "env \<Rightarrow> dbcfg \<Rightarrow> page \<Rightarrow> (string \<Rightarrow> string option) \<Rightarrow> world \<Rightarrow> (error + string) \<times> world" where
  "writePage ev dbCfg p pageMap w =
     (case buildSlug p (cfg_slugConf dbCfg) of
        Inl e \<Rightarrow> (Inl e, w)
      | Inr pageSlug \<Rightarrow>
          (case page_front ev dbCfg p pageSlug w of
             (Inl e, w1) \<Rightarrow> (Inl e, w1)
           | (Inr front, w1) \<Rightarrow>
               (case pageBodyMarkdown ev (page_id p) pageSlug (cfg_imagesDir dbCfg) pageMap w1 of
                  (body, w2) \<Rightarrow>
                    (case ensureDir ev (cfg_dir dbCfg) w2 of
                       Inl e \<Rightarrow> (Inl e, w2)
                     | Inr w3 \<Rightarrow>
                         (case writeFileSync ev (cfg_dir dbCfg) (md_name pageSlug)
                                 (toFrontMatterYaml ev front @ body) w3 of
                            Inl e \<Rightarrow> (Inl e, w3)
                          | Inr w4 \<Rightarrow>
                              (Inr (path_join (cfg_dir dbCfg) (md_name pageSlug)),
                               w4\<lparr>writes := writes w4 @
                                    [(path_join (cfg_dir dbCfg) (md_name pageSlug),
                                      toFrontMatterYaml ev front, body)]\<rparr>))))))"

section \<open>Cleaning a directory\<close>

fun clean_files ::
  "env \<Rightarrow> string \<Rightarrow> (string \<Rightarrow> bool) option \<Rightarrow> string list \<Rightarrow> string list \<Rightarrow> world
   \<Rightarrow> (error + string list) \<times> world" where
  "clean_files ev dir pattern [] deletedFiles w = (Inr deletedFiles, w)"
| "clean_files ev dir pattern (file # files) deletedFiles w =
     (if fs_fault ev (Stat dir file) then (Inl (FsError ''stat''), w)
      else (case map_of (listing w dir) file of
              None \<Rightarrow> (Inl (FsError ''ENOENT''), w)
            | Some SubDir \<Rightarrow> clean_files ev dir pattern files deletedFiles w
            | Some (File c) \<Rightarrow>
                if (case pattern of None \<Rightarrow> True | Some matches \<Rightarrow> matches file) then
                  (case unlinkSync ev dir file w of
                     Inl e \<Rightarrow> (Inl e, w)
                   | Inr w' \<Rightarrow>
                       clean_files ev dir pattern files (deletedFiles @ [path_join dir file]) w')
                else clean_files ev dir pattern files deletedFiles w))"

definition cleanDirectory ::
  "env \<Rightarrow> string \<Rightarrow> (string \<Rightarrow> bool) option \<Rightarrow> world \<Rightarrow> (error + string list) \<times> world" where
  "cleanDirectory ev dir pattern w =
     (if \<not> existsDir w dir then (Inr [], w)
      else if fs_fault ev (Readdir dir) then (Inl (FsError ''readdir''), w)
      else clean_files ev dir pattern (map fst (listing w dir)) [] w)"

text \<open>The pattern \<open>\.md$\<close>.\<close>

definition md_pattern :: "string \<Rightarrow> bool" where
  "md_pattern file = ends_with file ''.md''"

section \<open>The export\<close>

text \<open>
  \<open>fetchAllPages\<close>: the listing is read one response after the other until the remote
  says there is no more. The number of requests is bounded by the fuel; \<open>None\<close> is a
  listing that has not ended within it.
\<close>

fun fetchAllPages ::
  "nat \<Rightarrow> env \<Rightarrow> string \<Rightarrow> string option \<Rightarrow> page list \<Rightarrow> world
   \<Rightarrow> ((error + page list) \<times> world) option" where
  "fetchAllPages 0 ev database_id start_cursor results w = None"
| "fetchAllPages (Suc fuel) ev database_id start_cursor results w =
     (let w1 = log_call (PageQuery database_id start_cursor) w
      in (case db_query ev database_id start_cursor of
            Inl e \<Rightarrow> Some (Inl e, w1)
          | Inr (resp_results, has_more, next_cursor) \<Rightarrow>
              if has_more
              then fetchAllPages fuel ev database_id next_cursor (results @ resp_results) w1
              else Some (Inr (results @ resp_results), w1)))"

text \<open>What the first pass keeps for a database, and what the export reports for it.\<close>

record source_data =
  sd_pages :: "page list"
  sd_meta :: jsval
  sd_cfg :: dbcfg

record sync_result =
  res_databaseId :: string
  res_databaseTitle :: jsval
  res_pagesExported :: nat
  res_filesWritten :: "string list"
  res_filesDeleted :: "string list"

definition strip_dashes :: "string \<Rightarrow> string" where
  "strip_dashes s = filter (\<lambda>c. c \<noteq> CHR ''-'') s"

text \<open>The inner loop of the first pass: one map entry for every page.\<close>

fun register_pages ::
  "dbcfg \<Rightarrow> page list \<Rightarrow> (string \<Rightarrow> string option) \<Rightarrow> error + (string \<Rightarrow> string option)" where
  "register_pages dbCfg [] pageMap = Inr pageMap"
| "register_pages dbCfg (p # ps) pageMap =
     (case buildSlug p (cfg_slugConf dbCfg) of
        Inl e \<Rightarrow> Inl e
      | Inr pageSlug \<Rightarrow>
          register_pages dbCfg ps
            (pageMap(strip_dashes (page_id p) \<mapsto> renderPermalink (cfg_permalinkTpl dbCfg) pageSlug)))"

type_synonym pass1_state = "(string \<Rightarrow> string option) \<times> (string \<Rightarrow> source_data option)"

definition first_pass_source ::
  "nat \<Rightarrow> env \<Rightarrow> dbconf \<Rightarrow> pass1_state \<Rightarrow> world \<Rightarrow> ((error + pass1_state) \<times> world) option" where
  "first_pass_source fuel ev dbConf st w =
     (case st of
        (pageMap, allDbPages) \<Rightarrow>
          if \<not> present (databaseId dbConf) then Some (Inl (MissingField ''databaseId''), w)
          else (case extractDatabaseId (the (databaseId dbConf)) of
                  Inl e \<Rightarrow> Some (Inl e, w)
                | Inr dbId \<Rightarrow>
                    (let w1 = log_call (MetaFetch dbId) w
                     in (case db_meta ev dbId of
                           Inl e \<Rightarrow> Some (Inl e, w1)
                         | Inr dbMeta \<Rightarrow>
                             (case detectDbConfig (env_cwd ev) dbConf of
                                Inl e \<Rightarrow> Some (Inl e, w1)
                              | Inr dbCfg \<Rightarrow>
                                  (case fetchAllPages fuel ev dbId None [] w1 of
                                     None \<Rightarrow> None
                                   | Some (Inl e, w2) \<Rightarrow> Some (Inl e, w2)
                                   | Some (Inr pages, w2) \<Rightarrow>
                                       (case register_pages dbCfg pages pageMap of
                                          Inl e \<Rightarrow> Some (Inl e, w2)
                                        | Inr pageMap' \<Rightarrow>
                                            Some (Inr (pageMap',
                                                       allDbPages(dbId \<mapsto>
                                                         \<lparr>sd_pages = pages, sd_meta = dbMeta,
                                                          sd_cfg = dbCfg\<rparr>)),
                                                  w2))))))))"

fun first_pass ::
  "nat \<Rightarrow> env \<Rightarrow> dbconf list \<Rightarrow> pass1_state \<Rightarrow> world \<Rightarrow> ((error + pass1_state) \<times> world) option" where
  "first_pass fuel ev [] st w = Some (Inr st, w)"
| "first_pass fuel ev (dbConf # rest) st w =
     (case first_pass_source fuel ev dbConf st w of
        None \<Rightarrow> None
      | Some (Inl e, w') \<Rightarrow> Some (Inl e, w')
      | Some (Inr st', w') \<Rightarrow> first_pass fuel ev rest st' w')"

text \<open>The loop over the pages of a source in the second pass.\<close>

fun write_pages ::
  "env \<Rightarrow> dbcfg \<Rightarrow> (string \<Rightarrow> string option) \<Rightarrow> page list \<Rightarrow> string list \<Rightarrow> world
   \<Rightarrow> (error + string list) \<times> world" where
  "write_pages ev dbCfg pageMap [] writtenFiles w = (Inr writtenFiles, w)"
| "write_pages ev dbCfg pageMap (p # ps) writtenFiles w =
     (case writePage ev dbCfg p pageMap w of
        (Inl e, w') \<Rightarrow> (Inl e, w')
      | (Inr outPath, w') \<Rightarrow>
          write_pages ev dbCfg pageMap ps
            (if outPath \<in> set writtenFiles then writtenFiles else writtenFiles @ [outPath]) w')"

text \<open>The cleaning step of a source: nothing unless \<open>cleanBeforeSync\<close> is on.\<close>

definition clean_source ::
  "env \<Rightarrow> dbconf \<Rightarrow> dbcfg \<Rightarrow> world \<Rightarrow> (error + string list) \<times> world" where
  "clean_source ev dbConf dbCfg w =
     (if cfg_cleanBeforeSync dbCfg then
        (case cleanDirectory ev (cfg_dir dbCfg) (Some md_pattern) w of
           (Inl e, w1) \<Rightarrow> (Inl e, w1)
         | (Inr deletedMd, w1) \<Rightarrow>
             if present (srcDirImages dbConf) then
               (case cleanDirectory ev (cfg_imagesDir dbCfg) None w1 of
                  (Inl e, w2) \<Rightarrow> (Inl e, w2)
                | (Inr deletedImages, w2) \<Rightarrow> (Inr (deletedMd @ deletedImages), w2))
             else (Inr deletedMd, w1))
      else (Inr [], w))"

definition elem0 :: "jsval \<Rightarrow> jsval" where
  "elem0 v = (case v of JArr (x # xs) \<Rightarrow> x | _ \<Rightarrow> JUndefined)"

definition database_title :: "jsval \<Rightarrow> string \<Rightarrow> jsval" where
  "database_title dbMeta dbId =
     js_or (field (elem0 (field dbMeta ''title'')) ''plain_text'') (JStr dbId)"

text \<open>
  The body of the second loop. The data of the first pass is looked up under the
  identifier as the configuration spells it.
\<close>

definition second_pass_source ::
  "env \<Rightarrow> (string \<Rightarrow> string option) \<Rightarrow> (string \<Rightarrow> source_data option) \<Rightarrow> dbconf \<Rightarrow> world
   \<Rightarrow> (error + sync_result) \<times> world" where
  "second_pass_source ev pageMap allDbPages dbConf w =
     (case (case databaseId dbConf of None \<Rightarrow> None | Some dbId \<Rightarrow> allDbPages dbId) of
        None \<Rightarrow> (Inl TypeError, w)
      | Some sd \<Rightarrow>
          (case ensureDir ev (cfg_dir (sd_cfg sd)) w of
             Inl e \<Rightarrow> (Inl e, w)
           | Inr w1 \<Rightarrow>
               (case ensureDir ev (cfg_imagesDir (sd_cfg sd)) w1 of
                  Inl e \<Rightarrow> (Inl e, w1)
                | Inr w2 \<Rightarrow>
                    (case clean_source ev dbConf (sd_cfg sd) w2 of
                       (Inl e, w3) \<Rightarrow> (Inl e, w3)
                     | (Inr deletedFiles, w3) \<Rightarrow>
                         (case write_pages ev (sd_cfg sd) pageMap (sd_pages sd) [] w3 of
                            (Inl e, w4) \<Rightarrow> (Inl e, w4)
                          | (Inr writtenFiles, w4) \<Rightarrow>
                              (Inr \<lparr>res_databaseId = the (databaseId dbConf),
                                    res_databaseTitle =
                                      database_title (sd_meta sd) (the (databaseId dbConf)),
                                    res_pagesExported = length (sd_pages sd),
                                    res_filesWritten = writtenFiles,
                                    res_filesDeleted = deletedFiles\<rparr>,
                               w4))))))"

fun second_pass ::
  "env \<Rightarrow> (string \<Rightarrow> string option) \<Rightarrow> (string \<Rightarrow> source_data option) \<Rightarrow> dbconf list
   \<Rightarrow> sync_result list \<Rightarrow> world \<Rightarrow> (error + sync_result list) \<times> world" where
  "second_pass ev pageMap allDbPages [] results w = (Inr results, w)"
| "second_pass ev pageMap allDbPages (dbConf # rest) results w =
     (case second_pass_source ev pageMap allDbPages dbConf w of
        (Inl e, w') \<Rightarrow> (Inl e, w')
      | (Inr r, w') \<Rightarrow> second_pass ev pageMap allDbPages rest (results @ [r]) w')"

text \<open>
  \<open>exportNotionToSSG\<close> from the point where the token and the configuration are there and
  \<open>config.databases\<close> is an array: the first pass over every source, then the second.
\<close>

definition exportNotionToSSG ::
  "nat \<Rightarrow> env \<Rightarrow> dbconf list \<Rightarrow> world \<Rightarrow> ((error + sync_result list) \<times> world) option" where
  "exportNotionToSSG fuel ev databases w =
     (case first_pass fuel ev databases (Map.empty, Map.empty) w of
        None \<Rightarrow> None
      | Some (Inl e, w1) \<Rightarrow> Some (Inl e, w1)
      | Some (Inr (pageMap, allDbPages), w1) \<Rightarrow>
          Some (second_pass ev pageMap allDbPages databases [] w1))"


section \<open>Property values that follow the schema\<close>

text \<open>
  What the remote promises of a property value, as far as \<open>extractPropValue\<close> reads it:
  an array has no undefined or null element; the fields that hold text hold a string or
  nothing, \<open>number\<close> a number or nothing, \<open>boolean\<close> a boolean or nothing; a file entry
  of type \<open>file\<close> or \<open>external\<close> carries the object of that name; \<open>multi_select\<close> is
  an array of named options or nothing; \<open>array\<close> is an array or nothing.
\<close>

definition is_str :: "jsval \<Rightarrow> bool" where
  "is_str v = (case v of JStr s \<Rightarrow> True | _ \<Rightarrow> False)"

definition opt_str :: "jsval \<Rightarrow> bool" where
  "opt_str v = (is_str v \<or> nullish v)"

definition opt_num :: "jsval \<Rightarrow> bool" where
  "opt_num v = (case v of JNum n \<Rightarrow> True | _ \<Rightarrow> nullish v)"

definition opt_bool :: "jsval \<Rightarrow> bool" where
  "opt_bool v = (case v of JBool b \<Rightarrow> True | _ \<Rightarrow> nullish v)"

definition str_fields :: "string list" where
  "str_fields =
     [''plain_text'', ''name'', ''email'', ''id'', ''url'', ''start'', ''phone_number'', ''string'']"

definition obj_ok :: "jsval \<Rightarrow> bool" where
  "obj_ok ob =
     (list_all (\<lambda>k. opt_str (field ob k)) str_fields
      \<and> opt_num (field ob ''number'')
      \<and> opt_bool (field ob ''boolean'')
      \<and> (field ob ''type'' = JStr ''file'' \<longrightarrow> \<not> nullish (field ob ''file''))
      \<and> (field ob ''type'' = JStr ''external'' \<longrightarrow> \<not> nullish (field ob ''external''))
      \<and> (case field ob ''multi_select'' of
            JArr ms \<Rightarrow> list_all (\<lambda>m. is_str (field m ''name'')) ms
          | v \<Rightarrow> \<not> truthy v)
      \<and> (case field ob ''array'' of JArr els \<Rightarrow> True | v \<Rightarrow> \<not> truthy v))"

fun schema_ok :: "jsval \<Rightarrow> bool" where
  "schema_ok (JArr xs) = list_all (\<lambda>x. \<not> nullish x \<and> schema_ok x) xs"
| "schema_ok (JObj kvs) = (obj_ok (JObj kvs) \<and> list_all (\<lambda>kv. schema_ok (snd kv)) kvs)"
| "schema_ok v = True"

text \<open>
  The shapes of a normalized value: a scalar is null, a boolean, a number or a string;
  a flat value is a scalar or an array of strings; a nested value is a scalar or an array
  of nested values other than null.
\<close>

definition is_scalar :: "jsval \<Rightarrow> bool" where
  "is_scalar v =
     (case v of JNull \<Rightarrow> True | JBool b \<Rightarrow> True | JNum n \<Rightarrow> True | JStr s \<Rightarrow> True | _ \<Rightarrow> False)"

definition flat_shape :: "jsval \<Rightarrow> bool" where
  "flat_shape v = (case v of JArr xs \<Rightarrow> list_all is_str xs | _ \<Rightarrow> is_scalar v)"

fun nested_shape :: "jsval \<Rightarrow> bool" where
  "nested_shape (JArr xs) = list_all (\<lambda>x. x \<noteq> JNull \<and> nested_shape x) xs"
| "nested_shape v = is_scalar v"

definition known_types :: "string list" where
  "known_types =
     [''title'', ''rich_text'', ''select'', ''multi_select'', ''url'', ''date'', ''email'',
      ''phone_number'', ''number'', ''checkbox'', ''people'', ''files'', ''relation'',
      ''status'', ''formula'', ''rollup'']"

definition formula_types :: "string list" where
  "formula_types = [''string'', ''number'', ''boolean'', ''date'']"

definition rollup_types :: "string list" where
  "rollup_types = [''number'', ''date'', ''array'']"

text \<open>A bare database identifier: thirty-two hexadecimal digits in lower case.\<close>

definition is_bare_id :: "string \<Rightarrow> bool" where
  "is_bare_id s = (length s = 32 \<and> list_all is_hex s)"





text \<open>The name of the temporary file of a download.\<close>

definition temp_name :: "env \<Rightarrow> string \<Rightarrow> string \<Rightarrow> string" where
  "temp_name ev imageIndex url =
     ''temp-'' @ nat_to_str (env_now ev) @ ''-'' @ imageIndex @ ''.'' @ getImageExtension url"

text \<open>
  The Markdown files of a directory: the names that match \<open>\.md$\<close> and belong to a
  regular file, which are the entries \<open>cleanDirectory\<close> deletes under that pattern.
\<close>

definition md_files :: "world \<Rightarrow> string \<Rightarrow> string set" where
  "md_files w d =
     set (filter
            (\<lambda>n. md_pattern n
                 \<and> (case map_of (listing w d) n of Some (File c) \<Rightarrow> True | _ \<Rightarrow> False))
            (map fst (listing w d)))"







text \<open>
  Two runs, one after the other. The file system works when no operation fails by
  itself. A directory is plain when its names are distinct and belong to regular files,
  and a world is tidy when all its directories are. A new process starts with an empty
  image cache and nothing written; the files stay. Two worlds are alike when both are
  tidy and agree on the image cache and on what has been written.
\<close>

definition no_faults :: "env \<Rightarrow> bool" where
  "no_faults ev = (\<forall>operation. \<not> fs_fault ev operation)"

definition plain_files :: "(string \<times> entry) list \<Rightarrow> bool" where
  "plain_files es = (distinct (map fst es) \<and> list_all (\<lambda>(n, e). e \<noteq> SubDir) es)"

definition tidy :: "world \<Rightarrow> bool" where
  "tidy w = (\<forall>d. plain_files (listing w d))"

definition new_process :: "world \<Rightarrow> world" where
  "new_process w = w\<lparr>imageCache := (\<lambda>u. None), calls := [], writes := []\<rparr>"

definition alike :: "world \<Rightarrow> world \<Rightarrow> bool" where
  "alike w w' = (tidy w \<and> tidy w' \<and> imageCache w' = imageCache w \<and> writes w' = writes w)"

text \<open>What a run reports as written, source by source.\<close>

definition files_written :: "error + sync_result list \<Rightarrow> error + string list list" where
  "files_written r = (case r of Inl e \<Rightarrow> Inl e | Inr rs \<Rightarrow> Inr (map res_filesWritten rs))"

section \<open>Concrete inputs\<close>

definition done_prop :: jsval where
  "done_prop = JObj [(''type'', JStr ''checkbox''), (''checkbox'', JBool False)]"

definition title_prop :: "string \<Rightarrow> jsval" where
  "title_prop t = JObj [(''type'', JStr ''title''), (''title'', JArr [JObj [(''plain_text'', JStr t)]])]"

definition punct_page :: page where
  "punct_page =
     \<lparr>page_id = ''59833787-2cf9-4fdf-8782-e53db20768a5'',
      page_properties = [(''Name'', title_prop ''!!!'')],
      page_cover = JNull,
      page_icon = JNull\<rparr>"

definition rollup_numbers :: jsval where
  "rollup_numbers =
     JObj [(''type'', JStr ''rollup''),
           (''rollup'', JObj [(''type'', JStr ''array''),
                              (''array'', JArr [JObj [(''type'', JStr ''number''), (''number'', JNum 5)]])])]"

definition files_no_url :: jsval where
  "files_no_url = JObj [(''type'', JStr ''files''), (''files'', JArr [JObj [(''type'', JStr ''file'')]])]"

definition button_prop :: jsval where
  "button_prop = JObj [(''type'', JStr ''button''), (''button'', JObj [])]"

text \<open>
  A small site: one database with one page, titled \<open>My First Post\<close>, whose body links to
  a page and shows an image; a directory that holds a file of an earlier run.
\<close>

definition blog_id :: string where
  "blog_id = ''0123456789abcdef0123456789abcdef''"

definition blog_url :: string where
  "blog_url = ''https://www.notion.so/ws/0123456789abcdef0123456789abcdef?v=1''"

definition post_page :: page where
  "post_page =
     \<lparr>page_id = ''aaaaaaaa-bbbb-cccc-dddd-eeeeeeeeeeee'',
      page_properties = [(''Name'', title_prop ''My First Post''), ('' Done '', done_prop)],
      page_cover = JNull,
      page_icon = JNull\<rparr>"

definition post_body :: string where
  "post_body = ''See [that](https://www.notion.so/Other-aaaaaaaabbbbccccddddeeeeeeeeeeee) ![pic](https://s3.us-west/x.png)''"

definition simple_dump :: "(string \<times> jsval) list \<Rightarrow> string" where
  "simple_dump kvs = concat (map (\<lambda>(k, v). k @ '': '' @ js_String v @ [CHR 0x0A]) kvs)"

definition site_env :: env where
  "site_env =
     \<lparr>env_cwd = ''/site'',
      env_now = 7,
      yaml_dump = simple_dump,
      md5_hex = (\<lambda>body. ''d41d8cd98f00b204'' @ body),
      db_meta = (\<lambda>i. Inr (JObj [(''title'', JArr [JObj [(''plain_text'', JStr ''Blog'')]])])),
      db_query = (\<lambda>i cursor. if i = blog_id then Inr ([post_page], False, None)
                              else Inl (RemoteError ''object_not_found'')),
      page_markdown = (\<lambda>i. Inr post_body),
      http_get = (\<lambda>u. Response 200 ''PNG''),
      fs_fault = (\<lambda>operation. False)\<rparr>"

definition site_world :: world where
  "site_world =
     \<lparr>fs = (\<lambda>d. if d = ''/site/content'' then Some [(''old.md'', File ''stale'')] else None),
      imageCache = (\<lambda>u. None),
      calls = [],
      writes = []\<rparr>"

definition blog_conf :: dbconf where
  "blog_conf =
     \<lparr>databaseId = Some blog_id,
      srcDir = Some ''content'',
      srcDirImages = None,
      basePath = Some ''/blog'',
      conf_layout = Some ''post.njk'',
      excludeProperties = [],
      conf_slug = None,
      conf_permalink = None,
      frontMatter = [],
      cleanBeforeSync = None\<rparr>"

text \<open>Observations of a run that evaluation can decide.\<close>

definition run_failed :: "((error + 'a) \<times> world) option \<Rightarrow> bool" where
  "run_failed r = (case r of Some (Inl e, w) \<Rightarrow> True | _ \<Rightarrow> False)"

definition run_succeeded :: "((error + 'a) \<times> world) option \<Rightarrow> bool" where
  "run_succeeded r = (case r of Some (Inr x, w) \<Rightarrow> True | _ \<Rightarrow> False)"

text \<open>Two locators of one image, and a remote that answers every download with 404.\<close>

definition url_a :: string where
  "url_a = ''https://s3.us-west/x.png?sig=1''"

definition url_b :: string where
  "url_b = ''https://s3.us-west/x.png?sig=2''"

definition images_dir :: string where
  "images_dir = ''/site/src/images/notion''"


definition try_ok :: "(error + string) \<times> world \<Rightarrow> bool" where
  "try_ok r = (case r of (Inr p, w) \<Rightarrow> True | _ \<Rightarrow> False)"








section \<open>Properties\<close>

subsection \<open>Front matter\<close>


lemma map_of_obj_set_other: "k' \<noteq> k \<Longrightarrow> map_of (obj_set k v front) k' = map_of front k'"
  by (induction front) auto








subsection \<open>Slugs\<close>

text \<open>
  C6. A page whose title is \<open>!!!\<close>, under the default slug rule (from the title, falling
  back to the identifier): the title is not blank, so no fallback is taken, and
  slugification removes every character of it. The slug is the empty string.
\<close>

theorem buildSlug_punctuation_title:
  "buildSlug punct_page default_slugConf = Inr []"
  by code_simp

subsection \<open>Normalization\<close>

lemma mapE_Inr:
  "(\<And>x. x \<in> set xs \<Longrightarrow> f x = Inr (g x)) \<Longrightarrow> mapE f xs = Inr (map g xs)"
  by (induction xs) auto

lemma schema_ok_field: "schema_ok v \<Longrightarrow> schema_ok (field v k)"
  by (cases v) (auto simp: field_def list_all_iff split: option.splits dest!: map_of_SomeD)

lemma schema_ok_elem: "schema_ok (JArr xs) \<Longrightarrow> x \<in> set xs \<Longrightarrow> \<not> nullish x \<and> schema_ok x"
  by (auto simp: list_all_iff)

lemma obj_ok_field: "schema_ok v \<Longrightarrow> obj_ok v"
  apply (cases v)
  apply (auto simp: obj_ok_def field_def list_all_iff opt_str_def opt_num_def opt_bool_def nullish_def str_fields_def)
  done

lemma field_opt_str:
  "schema_ok v \<Longrightarrow> k \<in> set str_fields \<Longrightarrow> opt_str (field v k)"
  using obj_ok_field [of v] by (auto simp: obj_ok_def list_all_iff)

lemma opt_str_coalesce: "opt_str v \<Longrightarrow> is_scalar (coalesce v JNull)"
  by (cases v) (auto simp: opt_str_def is_str_def coalesce_def nullish_def is_scalar_def)

lemma opt_num_coalesce: "opt_num v \<Longrightarrow> is_scalar (coalesce v JNull)"
  by (cases v) (auto simp: opt_num_def coalesce_def nullish_def is_scalar_def)

lemma opt_bool_coalesce: "opt_bool v \<Longrightarrow> is_scalar (coalesce v JNull)"
  by (cases v) (auto simp: opt_bool_def coalesce_def nullish_def is_scalar_def)

lemma is_scalar_flat: "is_scalar v \<Longrightarrow> flat_shape v"
  by (cases v) (auto simp: flat_shape_def is_scalar_def)

lemma is_str_nested: "is_str x \<Longrightarrow> x \<noteq> JNull \<and> nested_shape x"
  by (cases x) (auto simp: is_str_def is_scalar_def)

lemma flat_nested: "flat_shape v \<Longrightarrow> nested_shape v"
  by (cases v) (auto simp: flat_shape_def is_scalar_def list_all_iff dest: is_str_nested)

lemma normalizeRichText_ok:
  assumes "schema_ok v"
  shows "\<exists>s. normalizeRichText v = Inr (JStr s)"
proof (cases v)
  case (JArr ts)
  have "mapE (\<lambda>t. bindE (get t ''plain_text'') (\<lambda>p. Inr (js_or p (JStr [])))) ts
        = Inr (map (\<lambda>t. js_or (field t ''plain_text'') (JStr [])) ts)"
    using assms JArr by (intro mapE_Inr) (auto simp: get_def bindE_def list_all_iff)
  then show ?thesis using JArr by (simp add: normalizeRichText_def bindE_def)
qed (auto simp: normalizeRichText_def)

lemma truthy_opt_str: "opt_str v \<Longrightarrow> truthy v \<Longrightarrow> is_str v"
  by (cases v) (auto simp: opt_str_def is_str_def nullish_def)

lemma normalizePeople_ok:
  assumes "schema_ok v"
  shows "\<exists>xs. normalizePeople v = JArr xs \<and> list_all is_str xs"
proof (cases v)
  case (JArr ps)
  have "is_str y" if "p \<in> set ps" and y: "y = js_or (field p ''name'')
                        (js_or (field (field p ''person'') ''email'') (field p ''id''))" "truthy y" for p y
  proof -
    have sp: "schema_ok p" using assms JArr that by (auto simp: list_all_iff)
    have "opt_str (field p ''name'')" "opt_str (field p ''id'')"
      "opt_str (field (field p ''person'') ''email'')"
      using sp schema_ok_field [OF sp, of "''person''"]
      by (auto intro!: field_opt_str simp: str_fields_def)
    then show ?thesis using y by (auto simp: js_or_def intro: truthy_opt_str split: if_splits)
  qed
  then show ?thesis using JArr by (auto simp: normalizePeople_def list_all_iff)
qed (auto simp: normalizePeople_def)

lemma file_url_ok:
  assumes "schema_ok f" "\<not> nullish f"
  shows "\<exists>u. file_url f = Inr u \<and> opt_str u"
proof -
  have ok: "obj_ok f" using assms by (simp add: obj_ok_field)
  have a: "opt_str (field (field f ''file'') ''url'')" "opt_str (field (field f ''external'') ''url'')"
    using assms schema_ok_field by (auto intro!: field_opt_str simp: str_fields_def)
  show ?thesis
    using assms ok a
    by (auto simp: file_url_def get_def bindE_def obj_ok_def opt_str_def nullish_def)
qed

lemma mapE_ex:
  "(\<And>x. x \<in> set xs \<Longrightarrow> \<exists>y. f x = Inr y \<and> P y) \<Longrightarrow> \<exists>ys. mapE f xs = Inr ys \<and> list_all P ys"
proof (induction xs)
  case Nil
  then show ?case by simp
next
  case (Cons x xs)
  then obtain y where "f x = Inr y" "P y" by auto
  moreover from Cons obtain ys where "mapE f xs = Inr ys" "list_all P ys" by auto
  ultimately show ?case by simp
qed

lemma filter_truthy_str: "list_all opt_str us \<Longrightarrow> list_all is_str (filter truthy us)"
  by (auto simp: list_all_iff intro: truthy_opt_str)

lemma normalizeFiles_ok:
  assumes "schema_ok v"
  shows "\<exists>xs. normalizeFiles v = Inr (JArr xs) \<and> list_all is_str xs"
proof (cases v)
  case (JArr fs)
  have "\<exists>us. mapE file_url fs = Inr us \<and> list_all opt_str us"
    using assms JArr by (intro mapE_ex file_url_ok) (auto simp: list_all_iff)
  then show ?thesis using JArr
    by (auto simp: normalizeFiles_def bindE_def intro: filter_truthy_str)
qed (auto simp: normalizeFiles_def)

lemma normalizeRelation_ok:
  assumes "schema_ok v"
  shows "\<exists>xs. normalizeRelation v = Inr (JArr xs) \<and> list_all is_str xs"
proof (cases v)
  case (JArr rs)
  have "\<exists>us. mapE (\<lambda>r. get r ''id'') rs = Inr us \<and> list_all opt_str us"
  proof (intro mapE_ex)
    fix r assume "r \<in> set rs"
    then have "\<not> nullish r" "schema_ok r" using assms JArr by (auto simp: list_all_iff)
    then show "\<exists>y. get r ''id'' = Inr y \<and> opt_str y"
      by (auto simp: get_def intro!: field_opt_str simp: str_fields_def)
  qed
  then show ?thesis using JArr
    by (auto simp: normalizeRelation_def bindE_def intro: filter_truthy_str)
qed (auto simp: normalizeRelation_def)

lemma multi_select_ok:
  assumes "schema_ok ob"
  shows "\<exists>xs. multi_select_names (field ob ''multi_select'') = Inr (JArr xs) \<and> list_all is_str xs"
proof -
  have ok: "obj_ok ob" using assms by (rule obj_ok_field)
  have sm: "schema_ok (field ob ''multi_select'')" using assms by (rule schema_ok_field)
  show ?thesis
  proof (cases "field ob ''multi_select''")
    case (JArr ms)
    have "mapE (\<lambda>m. get m ''name'') ms = Inr (map (\<lambda>m. field m ''name'') ms)"
      using sm JArr by (intro mapE_Inr) (auto simp: get_def list_all_iff)
    moreover have "list_all is_str (map (\<lambda>m. field m ''name'') ms)"
      using ok JArr by (auto simp: obj_ok_def list_all_iff)
    ultimately show ?thesis using JArr by (simp add: multi_select_names_def bindE_def)
  qed (use ok in \<open>auto simp: obj_ok_def multi_select_names_def\<close>)
qed

lemma bind_mapE_nested:
  assumes "\<And>x. x \<in> set xs \<Longrightarrow> \<exists>y. f x = Inr y \<and> nested_shape y"
  shows "\<exists>v. bindE (mapE f xs) (\<lambda>vs. Inr (JArr (filter (\<lambda>v. v \<noteq> JNull) vs))) = Inr v
             \<and> nested_shape v"
proof -
  from mapE_ex [of xs f nested_shape, OF assms]
  obtain ys where "mapE f xs = Inr ys" "list_all nested_shape ys" by blast
  then show ?thesis by (auto simp: bindE_def list_all_iff)
qed

lemma flat_arr_nested: "list_all is_str xs \<Longrightarrow> nested_shape (JArr xs)"
  by (auto simp: list_all_iff dest: is_str_nested)

lemma scalar_nested: "is_scalar v \<Longrightarrow> nested_shape v"
  by (cases v) (auto simp: is_scalar_def)

lemma field_num_scalar: "schema_ok v \<Longrightarrow> is_scalar (coalesce (field v ''number'') JNull)"
  using obj_ok_field [of v] by (auto simp: obj_ok_def intro: opt_num_coalesce)

lemma field_bool_scalar: "schema_ok v \<Longrightarrow> is_scalar (coalesce (field v ''boolean'') JNull)"
  using obj_ok_field [of v] by (auto simp: obj_ok_def intro: opt_bool_coalesce)

lemma field_str_scalar:
  "schema_ok v \<Longrightarrow> k \<in> set str_fields \<Longrightarrow> is_scalar (coalesce (field v k) JNull)"
  by (auto intro: opt_str_coalesce field_opt_str)

lemma field2_str_scalar:
  "schema_ok v \<Longrightarrow> k \<in> set str_fields \<Longrightarrow> is_scalar (coalesce (field (field v j) k) JNull)"
  by (auto intro: field_str_scalar schema_ok_field)

lemma is_scalar_simps [simp]:
  "is_scalar JNull" "is_scalar (JStr s)" "is_scalar (JNum n)" "is_scalar (JBool b)"
  "\<not> is_scalar JUndefined" "\<not> is_scalar (JArr xs)" "\<not> is_scalar (JObj kvs)"
  by (simp_all add: is_scalar_def)

lemma people_nested: "schema_ok v \<Longrightarrow> nested_shape (normalizePeople v)"
  using normalizePeople_ok [of v] by (auto simp del: nested_shape.simps intro: flat_arr_nested)

lemma relation_nested: "schema_ok v \<Longrightarrow> \<exists>y. normalizeRelation v = Inr y \<and> nested_shape y"
  using normalizeRelation_ok [of v] by (auto simp del: nested_shape.simps intro: flat_arr_nested)

lemma files_nested: "schema_ok v \<Longrightarrow> \<exists>y. normalizeFiles v = Inr y \<and> nested_shape y"
  using normalizeFiles_ok [of v] by (auto simp del: nested_shape.simps intro: flat_arr_nested)

lemma multi_nested:
  "schema_ok v \<Longrightarrow> \<exists>y. multi_select_names (field v ''multi_select'') = Inr y \<and> nested_shape y"
  using multi_select_ok [of v] by (auto simp del: nested_shape.simps intro: flat_arr_nested)

lemma rich_nested: "schema_ok v \<Longrightarrow> \<exists>y. normalizeRichText v = Inr y \<and> nested_shape y"
  using normalizeRichText_ok [of v] by auto

lemma normalizeRollup_ok:
  "schema_ok r \<Longrightarrow> \<exists>v. normalizeRollup r = Inr v \<and> nested_shape v"
proof (induction r rule: normalizeRollup.induct)
  case (1 rollup)
  note sr = \<open>schema_ok rollup\<close>
  have ok: "obj_ok rollup" using sr by (rule obj_ok_field)
  show ?case
  proof (cases "truthy rollup \<and> field rollup ''type'' = JStr ''array''
                \<and> truthy (field rollup ''array'')")
    case False
    then show ?thesis
      using sr
      by (subst normalizeRollup.simps)
         (auto simp: field_num_scalar field2_str_scalar str_fields_def
               intro!: scalar_nested)
  next
    case True
    then obtain els where els: "field rollup ''array'' = JArr els"
      using ok by (auto simp: obj_ok_def split: jsval.splits)
    have sels: "schema_ok (JArr els)" using sr els schema_ok_field [of rollup "''array''"] by simp
    have el: "\<not> nullish x \<and> schema_ok x" if "x \<in> set els" for x
      using sels that by (auto simp: list_all_iff)
    show ?thesis
      apply (subst normalizeRollup.simps)
      using True els apply (simp del: nested_shape.simps)
      apply (rule bind_mapE_nested)
      subgoal for x
        using el [of x] "1.IH" [of els x] True els
        by (auto simp: schema_ok_field field_num_scalar field2_str_scalar
              str_fields_def people_nested
            simp del: nested_shape.simps
            intro!: scalar_nested rich_nested relation_nested files_nested multi_nested)
      done
  qed
qed


lemma people_flat: "schema_ok v \<Longrightarrow> flat_shape (normalizePeople v)"
  using normalizePeople_ok [of v] by (auto simp: flat_shape_def)

lemma relation_flat: "schema_ok v \<Longrightarrow> \<exists>y. normalizeRelation v = Inr y \<and> flat_shape y"
  using normalizeRelation_ok [of v] by (auto simp: flat_shape_def)

lemma files_flat: "schema_ok v \<Longrightarrow> \<exists>y. normalizeFiles v = Inr y \<and> flat_shape y"
  using normalizeFiles_ok [of v] by (auto simp: flat_shape_def)

lemma multi_flat:
  "schema_ok v \<Longrightarrow> \<exists>y. multi_select_names (field v ''multi_select'') = Inr y \<and> flat_shape y"
  using multi_select_ok [of v] by (auto simp: flat_shape_def)

lemma rich_flat: "schema_ok v \<Longrightarrow> \<exists>y. normalizeRichText v = Inr y \<and> flat_shape y"
  using normalizeRichText_ok [of v] by (auto simp: flat_shape_def)

lemma formula_scalar: "schema_ok f \<Longrightarrow> is_scalar (formula_value f)"
  by (auto simp: formula_value_def field_num_scalar field_bool_scalar field_str_scalar
      field2_str_scalar str_fields_def)

lemma extract_rollup:
  "field pv ''type'' = JStr ''rollup'' \<Longrightarrow> extractPropValue pv = normalizeRollup (field pv ''rollup'')"
  by (cases pv) (auto simp: extractPropValue_def field_def)

lemma extract_unknown:
  "field pv ''type'' \<notin> JStr ` set known_types \<Longrightarrow> extractPropValue pv = Inr JNull"
  by (auto simp: extractPropValue_def known_types_def)

lemma extract_formula_unknown:
  "field pv ''type'' = JStr ''formula'' \<Longrightarrow>
   field (field pv ''formula'') ''type'' \<notin> JStr ` set formula_types \<Longrightarrow>
   extractPropValue pv = Inr JNull"
  by (auto simp: extractPropValue_def formula_value_def formula_types_def)

lemma extract_rollup_unknown:
  "field pv ''type'' = JStr ''rollup'' \<Longrightarrow>
   field (field pv ''rollup'') ''type'' \<notin> JStr ` set rollup_types \<Longrightarrow>
   extractPropValue pv = Inr JNull"
  by (auto simp: extract_rollup normalizeRollup.simps rollup_types_def)

lemma extract_flat:
  assumes "schema_ok pv" "field pv ''type'' \<noteq> JStr ''rollup''"
  shows "\<exists>v. extractPropValue pv = Inr v \<and> flat_shape v"
  unfolding extractPropValue_def
  using assms
  by (auto simp: schema_ok_field people_flat field_num_scalar field_str_scalar
        field2_str_scalar str_fields_def formula_scalar
      intro!: is_scalar_flat rich_flat relation_flat files_flat multi_flat)

lemma extract_schema_ok:
  assumes "schema_ok pv"
  shows "\<exists>v. extractPropValue pv = Inr v \<and> nested_shape v
             \<and> (field pv ''type'' \<noteq> JStr ''rollup'' \<longrightarrow> flat_shape v)"
proof (cases "field pv ''type'' = JStr ''rollup''")
  case True
  then show ?thesis
    using normalizeRollup_ok [of "field pv ''rollup''"] assms
    by (auto simp: extract_rollup schema_ok_field simp del: nested_shape.simps)
next
  case False
  then show ?thesis using extract_flat [OF assms False] by (auto intro: flat_nested)
qed

text \<open>
  C3, as the code has it. On a property value that follows the schema, \<open>extractPropValue\<close>
  returns: it does not throw. Its result is null, a boolean, a number, a string or an
  array; the array of a rollup holds the normalized elements, which are strings, numbers
  or arrays again, and every other array is an array of strings. A property whose type is
  not one of the sixteen handled, a formula whose result type is not one of the four
  handled and a rollup whose type is not one of the three handled normalize to null,
  whatever else the value holds.
\<close>

theorem extractPropValue_schema_total:
  "(schema_ok pv \<longrightarrow>
      (\<exists>v. extractPropValue pv = Inr v \<and> nested_shape v
           \<and> (field pv ''type'' \<noteq> JStr ''rollup'' \<longrightarrow> flat_shape v)))
   \<and> (field pv ''type'' \<notin> JStr ` set known_types \<longrightarrow> extractPropValue pv = Inr JNull)
   \<and> (field pv ''type'' = JStr ''formula'' \<longrightarrow>
        field (field pv ''formula'') ''type'' \<notin> JStr ` set formula_types \<longrightarrow>
        extractPropValue pv = Inr JNull)
   \<and> (field pv ''type'' = JStr ''rollup'' \<longrightarrow>
        field (field pv ''rollup'') ''type'' \<notin> JStr ` set rollup_types \<longrightarrow>
        extractPropValue pv = Inr JNull)"
  using extract_schema_ok [of pv] extract_unknown [of pv] extract_formula_unknown [of pv]
    extract_rollup_unknown [of pv]
  by blast

theorem extractPropValue_schema_total_witness:
  "schema_ok rollup_numbers
   \<and> (\<exists>v. extractPropValue rollup_numbers = Inr v \<and> nested_shape v)
   \<and> extractPropValue button_prop = Inr JNull"
proof -
  have h1: "schema_ok rollup_numbers"
    by (simp add: rollup_numbers_def obj_ok_def field_def str_fields_def opt_str_def
        opt_num_def opt_bool_def nullish_def)
  have h2: "field button_prop ''type'' \<notin> JStr ` set known_types"
    by (auto simp: button_prop_def field_def known_types_def)
  have a: "\<exists>v. extractPropValue rollup_numbers = Inr v \<and> nested_shape v"
    using extractPropValue_schema_total [of rollup_numbers, THEN conjunct1] h1 by blast
  have b: "extractPropValue button_prop = Inr JNull"
    using extractPropValue_schema_total [of button_prop, THEN conjunct2, THEN conjunct1] h2
    by blast
  from h1 a b show ?thesis by (intro conjI)
qed

text \<open>
  C3 as stated fails twice. A rollup over numbers follows the schema and normalizes to an
  array of numbers, which is none of string, number, boolean, array of strings and null.
  A file entry of type \<open>file\<close> without its \<open>file\<close> object makes \<open>normalizeFiles\<close>
  read a property of undefined, and \<open>extractPropValue\<close> throws.
\<close>

theorem extractPropValue_not_total:
  "schema_ok rollup_numbers
   \<and> extractPropValue rollup_numbers = Inr (JArr [JNum 5])
   \<and> extractPropValue files_no_url = Inl TypeError"
proof (intro conjI)
  show "schema_ok rollup_numbers"
    by (simp add: rollup_numbers_def obj_ok_def field_def str_fields_def opt_str_def
        opt_num_def opt_bool_def nullish_def)
  show "extractPropValue rollup_numbers = Inr (JArr [JNum 5])"
    by code_simp
  show "extractPropValue files_no_url = Inl TypeError"
    by code_simp
qed

subsection \<open>Database identifiers and the two passes\<close>

lemma hex32_at_bare: "hex32_at s = Some h \<Longrightarrow> is_bare_id h"
  by (auto simp: hex32_at_def is_bare_id_def split: if_splits)

lemma find_hex32_bare: "find_hex32 s = Some h \<Longrightarrow> is_bare_id h"
  by (induction s) (auto split: option.splits dest: hex32_at_bare)

lemma extractDatabaseId_bare: "extractDatabaseId s = Inr h \<Longrightarrow> is_bare_id h"
  by (auto simp: extractDatabaseId_def is_bare_id_def split: if_splits option.splits
      dest: find_hex32_bare)

lemma extractDatabaseId_fixed: "extractDatabaseId s = Inr s \<longleftrightarrow> is_bare_id s"
proof
  assume "extractDatabaseId s = Inr s"
  then show "is_bare_id s" by (rule extractDatabaseId_bare)
next
  assume "is_bare_id s"
  then show "extractDatabaseId s = Inr s" by (simp add: extractDatabaseId_def is_bare_id_def)
qed

lemma fetchAllPages_calls:
  "fetchAllPages fuel ev db cur acc w = Some (r, w') \<Longrightarrow> set (calls w) \<subseteq> set (calls w')"
proof (induction fuel arbitrary: cur acc w)
  case 0
  then show ?case by simp
next
  case (Suc fuel)
  show ?case
  proof (cases "db_query ev db cur")
    case (Inl e)
    with Suc.prems show ?thesis by (auto simp: Let_def log_call_def)
  next
    case (Inr resp)
    obtain ps more nxt where resp: "resp = (ps, more, nxt)" by (cases resp) auto
    show ?thesis
    proof (cases more)
      case True
      with Suc.prems Inr resp have
        "fetchAllPages fuel ev db nxt (acc @ ps) (log_call (PageQuery db cur) w) = Some (r, w')"
        by (simp add: Let_def)
      from Suc.IH [OF this] show ?thesis by (auto simp: log_call_def)
    next
      case False
      with Suc.prems Inr resp show ?thesis by (auto simp: Let_def log_call_def)
    qed
  qed
qed


lemma first_pass_source_ok:
  assumes "first_pass_source fuel ev c (pm, al) w = Some (Inr (pm', al'), w')"
  shows "\<exists>raw h sd. databaseId c = Some raw \<and> raw \<noteq> [] \<and> extractDatabaseId raw = Inr h
            \<and> al' = al(h \<mapsto> sd) \<and> MetaFetch h \<in> set (calls w')
            \<and> set (calls w) \<subseteq> set (calls w')"
proof -
  from assms obtain raw where raw: "databaseId c = Some raw" "raw \<noteq> []"
    by (cases "databaseId c") (auto simp: first_pass_source_def present_def split: list.splits)
  then have p: "present (databaseId c)" by (cases raw) (auto simp: present_def)
  from assms p raw obtain h where h: "extractDatabaseId raw = Inr h"
    by (cases "extractDatabaseId raw") (auto simp: first_pass_source_def)
  from assms p raw h obtain dbMeta dbCfg pages w2 where
    f: "fetchAllPages fuel ev h None [] (log_call (MetaFetch h) w) = Some (Inr pages, w2)"
    and r: "al' = al(h \<mapsto> \<lparr>sd_pages = pages, sd_meta = dbMeta, sd_cfg = dbCfg\<rparr>)" "w' = w2"
    by (auto simp: first_pass_source_def Let_def split: sum.splits option.splits prod.splits)
  from fetchAllPages_calls [OF f] have "set (calls w) \<union> {MetaFetch h} \<subseteq> set (calls w2)"
    by (auto simp: log_call_def)
  with raw h r show ?thesis by auto
qed

lemma first_pass_ok:
  assumes "first_pass fuel ev dbs (pm, al) w = Some (Inr (pm', al'), w')"
  shows "(\<forall>c\<in>set dbs. \<exists>raw h. databaseId c = Some raw \<and> raw \<noteq> []
            \<and> extractDatabaseId raw = Inr h \<and> al' h \<noteq> None \<and> MetaFetch h \<in> set (calls w'))
         \<and> (\<forall>k. al' k \<noteq> None \<longrightarrow> al k \<noteq> None \<or> is_bare_id k)
         \<and> (\<forall>k. al k \<noteq> None \<longrightarrow> al' k \<noteq> None)
         \<and> set (calls w) \<subseteq> set (calls w')"
  using assms
proof (induction dbs arbitrary: pm al w)
  case Nil
  then show ?case by simp
next
  case (Cons c dbs)
  from Cons.prems obtain pm1 al1 w1 where
    s: "first_pass_source fuel ev c (pm, al) w = Some (Inr (pm1, al1), w1)"
    and r: "first_pass fuel ev dbs (pm1, al1) w1 = Some (Inr (pm', al'), w')"
    by (auto split: option.splits sum.splits prod.splits)
  from first_pass_source_ok [OF s] obtain raw h sd where
    c: "databaseId c = Some raw" "raw \<noteq> []" "extractDatabaseId raw = Inr h"
       "al1 = al(h \<mapsto> sd)" "MetaFetch h \<in> set (calls w1)" "set (calls w) \<subseteq> set (calls w1)"
    by blast
  note ih = Cons.IH [OF r]
  have bare: "is_bare_id h" using c(3) by (rule extractDatabaseId_bare)
  have "al' h \<noteq> None" using ih c(4) by auto
  moreover have "MetaFetch h \<in> set (calls w')" using ih c(5) by auto
  ultimately have head: "\<exists>raw h. databaseId c = Some raw \<and> raw \<noteq> []
            \<and> extractDatabaseId raw = Inr h \<and> al' h \<noteq> None \<and> MetaFetch h \<in> set (calls w')"
    using c by blast
  have keys: "\<forall>k. al' k \<noteq> None \<longrightarrow> al k \<noteq> None \<or> is_bare_id k"
    using ih c(4) bare by (auto split: if_splits)
  have grow: "\<forall>k. al k \<noteq> None \<longrightarrow> al' k \<noteq> None"
    using ih c(4) by auto
  show ?case using head ih keys grow c(6) by auto
qed

lemma second_pass_lookup_fails:
  assumes "c \<in> set dbs"
    and "second_pass_source ev pm al c = (\<lambda>w. (Inl TypeError, w))"
  shows "\<exists>e w'. second_pass ev pm al dbs results w = (Inl e, w')"
  using assms
proof (induction dbs arbitrary: results w)
  case Nil
  then show ?case by simp
next
  case (Cons d dbs)
  show ?case
  proof (cases "second_pass_source ev pm al d w")
    case (Pair r w1)
    show ?thesis
    proof (cases r)
      case (Inl e)
      then show ?thesis using Pair by simp
    next
      case (Inr res)
      then have "d \<noteq> c" using Pair Cons.prems by auto
      then have "c \<in> set dbs" using Cons.prems by simp
      from Cons.IH [OF this Cons.prems(2)] show ?thesis using Pair Inr by simp
    qed
  qed
qed

text \<open>
  C9. The first pass files the data of a source under the identifier extracted from the
  configured one, and the second pass looks it up under the configured one. So a run that
  completes has every \<open>databaseId\<close> equal to its extracted form. And once the first pass
  is through, a source whose \<open>databaseId\<close> differs from its extracted form (a URL) has
  its data filed under the extracted identifier, whose metadata the remote was asked for,
  and nothing under the configured one: the second pass fails on it with a TypeError, and
  the export fails.
\<close>

theorem raw_id_lookup:
  "(exportNotionToSSG fuel ev dbs w = Some (Inr results, w2) \<longrightarrow>
      (\<forall>c\<in>set dbs. \<exists>raw. databaseId c = Some raw \<and> extractDatabaseId raw = Inr raw))
   \<and> (first_pass fuel ev dbs (Map.empty, Map.empty) w = Some (Inr (pageMap, allDbPages), w1) \<longrightarrow>
        c \<in> set dbs \<longrightarrow> databaseId c = Some raw \<longrightarrow> extractDatabaseId raw \<noteq> Inr raw \<longrightarrow>
          (\<exists>h. extractDatabaseId raw = Inr h \<and> allDbPages h \<noteq> None
                \<and> MetaFetch h \<in> set (calls w1))
          \<and> allDbPages raw = None
          \<and> (\<forall>w'. second_pass_source ev pageMap allDbPages c w' = (Inl TypeError, w'))
          \<and> (\<exists>e w3. exportNotionToSSG fuel ev dbs w = Some (Inl e, w3)))"
proof -
  have main: "(\<exists>h. extractDatabaseId raw = Inr h \<and> al h \<noteq> None \<and> MetaFetch h \<in> set (calls w1))
          \<and> al raw = None
          \<and> (\<forall>w'. second_pass_source ev pm al c w' = (Inl TypeError, w'))
          \<and> (\<exists>e w3. exportNotionToSSG fuel ev dbs w = Some (Inl e, w3))"
    if p1: "first_pass fuel ev dbs (Map.empty, Map.empty) w = Some (Inr (pm, al), w1)"
      and c: "c \<in> set dbs" "databaseId c = Some raw" "extractDatabaseId raw \<noteq> Inr raw"
    for pm al w1 c raw
  proof -
    note ok = first_pass_ok [OF p1]
    from ok c obtain h where h: "extractDatabaseId raw = Inr h" "al h \<noteq> None"
      "MetaFetch h \<in> set (calls w1)" by fastforce
    have nb: "\<not> is_bare_id raw" using c(3) by (simp add: extractDatabaseId_fixed)
    have none: "al raw = None" using ok nb by auto
    have sp: "second_pass_source ev pm al c w' = (Inl TypeError, w')" for w'
      using none c(2) by (simp add: second_pass_source_def)
    then have "second_pass_source ev pm al c = (\<lambda>w. (Inl TypeError, w))" by auto
    from second_pass_lookup_fails [OF c(1) this, of "[]" w1]
    have "\<exists>e w3. exportNotionToSSG fuel ev dbs w = Some (Inl e, w3)"
      using p1 by (auto simp: exportNotionToSSG_def)
    with h none sp show ?thesis by blast
  qed
  have succ: "\<forall>c\<in>set dbs. \<exists>raw. databaseId c = Some raw \<and> extractDatabaseId raw = Inr raw"
    if run: "exportNotionToSSG fuel ev dbs w = Some (Inr results, w2)"
  proof
    fix c assume cin: "c \<in> set dbs"
    from run obtain pm al w1 where
      p1: "first_pass fuel ev dbs (Map.empty, Map.empty) w = Some (Inr (pm, al), w1)"
      by (auto simp: exportNotionToSSG_def split: option.splits sum.splits prod.splits)
    from first_pass_ok [OF p1] cin obtain raw where raw: "databaseId c = Some raw" by fastforce
    show "\<exists>raw. databaseId c = Some raw \<and> extractDatabaseId raw = Inr raw"
    proof (cases "extractDatabaseId raw = Inr raw")
      case True
      with raw show ?thesis by blast
    next
      case False
      from main [OF p1 cin raw False] run show ?thesis by auto
    qed
  qed
  show ?thesis
  proof (rule conjI; intro impI)
    assume "exportNotionToSSG fuel ev dbs w = Some (Inr results, w2)"
    then show "\<forall>c\<in>set dbs. \<exists>raw. databaseId c = Some raw \<and> extractDatabaseId raw = Inr raw"
      by (rule succ)
  next
    assume "first_pass fuel ev dbs (Map.empty, Map.empty) w = Some (Inr (pageMap, allDbPages), w1)"
      "c \<in> set dbs" "databaseId c = Some raw" "extractDatabaseId raw \<noteq> Inr raw"
    then show "(\<exists>h. extractDatabaseId raw = Inr h \<and> allDbPages h \<noteq> None
                \<and> MetaFetch h \<in> set (calls w1))
          \<and> allDbPages raw = None
          \<and> (\<forall>w'. second_pass_source ev pageMap allDbPages c w' = (Inl TypeError, w'))
          \<and> (\<exists>e w3. exportNotionToSSG fuel ev dbs w = Some (Inl e, w3))"
      by (rule main)
  qed
qed

lemma run_failedE: "run_failed r \<Longrightarrow> \<exists>e w. r = Some (Inl e, w)"
  by (auto simp: run_failed_def split: option.splits sum.splits prod.splits)

lemma run_succeededE: "run_succeeded r \<Longrightarrow> \<exists>x w. r = Some (Inr x, w)"
  by (auto simp: run_succeeded_def split: option.splits sum.splits prod.splits)

theorem raw_id_lookup_witness:
  "extractDatabaseId blog_url \<noteq> Inr blog_url
   \<and> run_succeeded (first_pass 3 site_env [blog_conf\<lparr>databaseId := Some blog_url\<rparr>]
         (\<lambda>k. None, \<lambda>k. None) site_world)
   \<and> (\<exists>e w3. exportNotionToSSG 3 site_env [blog_conf\<lparr>databaseId := Some blog_url\<rparr>] site_world
         = Some (Inl e, w3))"
proof -
  let ?c = "blog_conf\<lparr>databaseId := Some blog_url\<rparr>"
  have h1: "extractDatabaseId blog_url \<noteq> Inr blog_url" by code_simp
  have h2: "run_succeeded (first_pass 3 site_env [?c] (\<lambda>k. None, \<lambda>k. None) site_world)"
    by code_simp
  from run_succeededE [OF h2] obtain pm al w1 where
    p1: "first_pass 3 site_env [?c] (Map.empty, Map.empty) site_world = Some (Inr (pm, al), w1)"
    by auto
  have h3: "?c \<in> set [?c]" by simp
  have h4: "databaseId ?c = Some blog_url" by simp
  from raw_id_lookup [of 3 site_env "[?c]" site_world _ _ pm al w1 ?c blog_url,
      THEN conjunct2, rule_format, OF p1 h3 h4 h1]
  have "\<exists>e w3. exportNotionToSSG 3 site_env [?c] site_world = Some (Inl e, w3)"
    by blast
  with h1 h2 show ?thesis by (intro conjI)
qed

subsection \<open>Configuration errors\<close>












subsection \<open>Images\<close>

lemma ensureDir_frame:
  "ensureDir ev d w = Inr w' \<Longrightarrow> imageCache w' = imageCache w \<and> calls w' = calls w"
  by (auto simp: ensureDir_def split: if_splits)

lemma put_file_frame:
  "put_file d n c w = Inr w' \<Longrightarrow> imageCache w' = imageCache w \<and> calls w' = calls w"
  by (auto simp: put_file_def split: option.splits if_splits)

lemma unlinkSync_frame:
  "unlinkSync ev d n w = Inr w' \<Longrightarrow> imageCache w' = imageCache w \<and> calls w' = calls w"
  by (auto simp: unlinkSync_def split: option.splits if_splits entry.splits)

lemma renameSync_frame:
  "renameSync ev d a b w = Inr w' \<Longrightarrow> imageCache w' = imageCache w \<and> calls w' = calls w"
  by (auto simp: renameSync_def split: option.splits if_splits)

lemma writeFileSync_frame:
  "writeFileSync ev d n c w = Inr w' \<Longrightarrow> imageCache w' = imageCache w \<and> calls w' = calls w"
  by (auto simp: writeFileSync_def dest: put_file_frame split: if_splits)

lemma downloadImage_frame:
  assumes "downloadImage ev url d n w = (r, w')"
  shows "imageCache w' = imageCache w \<and> calls w' = calls w @ [Download url]"
proof -
  let ?w1 = "log_call (Download url) w"
  have w1: "imageCache ?w1 = imageCache w" "calls ?w1 = calls w @ [Download url]"
    by (simp_all add: log_call_def)
  show ?thesis
  proof (cases "fs_fault ev (Create d n)")
    case True
    with assms w1 show ?thesis by (auto simp: downloadImage_def Let_def)
  next
    case False
    show ?thesis
    proof (cases "put_file d n [] ?w1")
      case (Inl e)
      with assms w1 False show ?thesis by (auto simp: downloadImage_def Let_def)
    next
      case (Inr w2)
      note f2 = put_file_frame [OF Inr]
      show ?thesis
      proof (cases "http_get ev url")
        case NetError
        show ?thesis
        proof (cases "unlinkSync ev d n w2")
          case (Inl e)
          with assms False Inr NetError f2 w1 show ?thesis
            by (auto simp: downloadImage_def Let_def)
        next
          case (Inr w3)
          with assms False \<open>put_file d n [] ?w1 = Inr w2\<close> NetError f2 w1
            unlinkSync_frame [OF Inr]
          show ?thesis by (auto simp: downloadImage_def Let_def)
        qed
      next
        case (Response st body)
        show ?thesis
        proof (cases "st = 200")
          case True
          show ?thesis
          proof (cases "put_file d n body w2")
            case (Inl e)
            with assms False Inr Response True f2 w1 show ?thesis
              by (auto simp: downloadImage_def Let_def)
          next
            case (Inr w3)
            with assms False \<open>put_file d n [] ?w1 = Inr w2\<close> Response True f2 w1
              put_file_frame [OF Inr]
            show ?thesis by (auto simp: downloadImage_def Let_def)
          qed
        next
          case False': False
          with assms False Inr Response f2 w1 show ?thesis
            by (auto simp: downloadImage_def Let_def)
        qed
      qed
    qed
  qed
qed

lemma downloadImage_Inr:
  "downloadImage ev url d n w = (Inr h, w') \<Longrightarrow>
   \<exists>body. http_get ev url = Response 200 body \<and> h = take 8 (md5_hex ev body)"
  by (auto simp: downloadImage_def Let_def
      split: if_splits sum.splits http_response.splits)

lemma save_image_try_cases:
  assumes "save_image_try ev url pageSlug idx dir w = (r, w')"
  shows "(\<exists>e. r = Inl e \<and> imageCache w' = imageCache w
              \<and> (calls w' = calls w \<or> calls w' = calls w @ [Download url]))
         \<or> (\<exists>body p. r = Inr p \<and> http_get ev url = Response 200 body
              \<and> p = image_relative ev dir
                    (image_filename pageSlug idx (take 8 (md5_hex ev body)) (getImageExtension url))
              \<and> imageCache w' = (imageCache w)(url \<mapsto> p)
              \<and> calls w' = calls w @ [Download url])"
proof (cases "ensureDir ev dir w")
  case (Inl e)
  with assms show ?thesis by (auto simp: save_image_try_def)
next
  case (Inr w1)
  note f1 = ensureDir_frame [OF Inr]
  obtain r2 w2 where d: "downloadImage ev url dir (temp_name ev idx url) w1 = (r2, w2)"
    by (cases "downloadImage ev url dir (temp_name ev idx url) w1") auto
  note f2 = downloadImage_frame [OF d]
  show ?thesis
  proof (cases r2)
    case (Inl e)
    with assms Inr d f1 f2 show ?thesis
      by (auto simp: save_image_try_def Let_def temp_name_def)
  next
    case (Inr h)
    from downloadImage_Inr [OF d [unfolded Inr]] obtain body where
      b: "http_get ev url = Response 200 body" "h = take 8 (md5_hex ev body)" by blast
    let ?fn = "image_filename pageSlug idx h (getImageExtension url)"
    show ?thesis
    proof (cases "existsFile w2 dir ?fn")
      case True
      show ?thesis
      proof (cases "unlinkSync ev dir (temp_name ev idx url) w2")
        case (Inl e)
        with assms \<open>ensureDir ev dir w = Inr w1\<close> d Inr True f1 f2 show ?thesis
          by (auto simp: save_image_try_def Let_def temp_name_def)
      next
        case Inr3: (Inr w3)
        with assms \<open>ensureDir ev dir w = Inr w1\<close> d Inr True f1 f2 b
          unlinkSync_frame [OF Inr3]
        show ?thesis
          by (auto simp: save_image_try_def Let_def temp_name_def)
      qed
    next
      case False
      show ?thesis
      proof (cases "renameSync ev dir (temp_name ev idx url) ?fn w2")
        case (Inl e)
        with assms \<open>ensureDir ev dir w = Inr w1\<close> d Inr False f1 f2 show ?thesis
          by (auto simp: save_image_try_def Let_def temp_name_def)
      next
        case Inr3: (Inr w3)
        with assms \<open>ensureDir ev dir w = Inr w1\<close> d Inr False f1 f2 b
          renameSync_frame [OF Inr3]
        show ?thesis
          by (auto simp: save_image_try_def Let_def temp_name_def)
      qed
    qed
  qed
qed










text \<open>
  C4, as the code has it. Two locators of the same bytes, with the same extension, asked
  for under the same page slug, index and directory, both fetched without an error:
  they resolve to one local path, the name built from the slug, the index and the digest
  of the bytes. Each of the two locators is downloaded, once. Afterwards either locator
  is answered from the cache, whatever slug, index and directory it is asked under, with
  no download and no file operation.
\<close>

theorem same_content_same_path:
  assumes "imageCache w a = None" "imageCache w b = None" "a \<noteq> b"
    and "http_get ev a = Response 200 body" "http_get ev b = Response 200 body"
    and "getImageExtension a = getImageExtension b"
    and "save_image_try ev a pageSlug idx dir w = (Inr pa, w1)"
    and "save_image_try ev b pageSlug idx dir w1 = (Inr pb, w2)"
  shows "saveNotionImage ev a pageSlug idx dir w = (pa, w1)
         \<and> saveNotionImage ev b pageSlug idx dir w1 = (pb, w2)
         \<and> pa = pb
         \<and> pa = image_relative ev dir
                  (image_filename pageSlug idx (take 8 (md5_hex ev body)) (getImageExtension a))
         \<and> calls w2 = calls w @ [Download a, Download b]
         \<and> saveNotionImage ev a slug' idx' dir' w2 = (pa, w2)
         \<and> saveNotionImage ev b slug' idx' dir' w2 = (pb, w2)"
proof -
  from save_image_try_cases [OF assms(7)] assms(4) have
    1: "pa = image_relative ev dir
                  (image_filename pageSlug idx (take 8 (md5_hex ev body)) (getImageExtension a))"
       "imageCache w1 = (imageCache w)(a \<mapsto> pa)" "calls w1 = calls w @ [Download a]"
    by auto
  from save_image_try_cases [OF assms(8)] assms(5) have
    2: "pb = image_relative ev dir
                  (image_filename pageSlug idx (take 8 (md5_hex ev body)) (getImageExtension b))"
       "imageCache w2 = (imageCache w1)(b \<mapsto> pb)" "calls w2 = calls w1 @ [Download b]"
    by auto
  have c1: "imageCache w1 b = None" using 1 assms(2,3) by simp
  have c2: "imageCache w2 a = Some pa" "imageCache w2 b = Some pb" using 1 2 assms(3) by auto
  show ?thesis
    using assms 1 2 c1 c2 by (simp add: saveNotionImage_def)
qed

theorem same_content_same_path_witness:
  "http_get site_env url_a = Response 200 ''PNG''
   \<and> http_get site_env url_b = Response 200 ''PNG''
   \<and> try_ok (save_image_try site_env url_a ''post'' ''0'' images_dir site_world)
   \<and> try_ok (save_image_try site_env url_b ''post'' ''0'' images_dir
               (snd (save_image_try site_env url_a ''post'' ''0'' images_dir site_world)))
   \<and> fst (saveNotionImage site_env url_a ''post'' ''0'' images_dir site_world)
       = fst (saveNotionImage site_env url_b ''post'' ''0'' images_dir
               (snd (saveNotionImage site_env url_a ''post'' ''0'' images_dir site_world)))"
proof -
  let ?r1 = "save_image_try site_env url_a ''post'' ''0'' images_dir site_world"
  let ?r2 = "save_image_try site_env url_b ''post'' ''0'' images_dir (snd ?r1)"
  have g1: "http_get site_env url_a = Response 200 ''PNG''" by (simp add: site_env_def)
  have g2: "http_get site_env url_b = Response 200 ''PNG''" by (simp add: site_env_def)
  have k1: "try_ok ?r1" by code_simp
  have k2: "try_ok ?r2" by code_simp
  obtain pa w1 where r1: "?r1 = (Inr pa, w1)"
    using k1 by (auto simp: try_ok_def split: prod.splits sum.splits)
  obtain pb w2 where r2: "save_image_try site_env url_b ''post'' ''0'' images_dir w1 = (Inr pb, w2)"
    using k2 r1 by (auto simp: try_ok_def split: prod.splits sum.splits)
  have h1: "imageCache site_world url_a = None" by (simp add: site_world_def)
  have h2: "imageCache site_world url_b = None" by (simp add: site_world_def)
  have h3: "url_a \<noteq> url_b" by (simp add: url_a_def url_b_def)
  have h6: "getImageExtension url_a = getImageExtension url_b" by code_simp
  note t = same_content_same_path [OF h1 h2 h3 g1 g2 h6 r1 r2]
  from t have e: "fst (saveNotionImage site_env url_a ''post'' ''0'' images_dir site_world)
       = fst (saveNotionImage site_env url_b ''post'' ''0'' images_dir
               (snd (saveNotionImage site_env url_a ''post'' ''0'' images_dir site_world)))"
    by simp
  from g1 g2 k1 k2 e show ?thesis by (intro conjI)
qed

text \<open>
  C4 as stated fails. The same bytes behind two locators, asked for by two pages: the two
  local paths differ, since the name of the file starts with the slug of the page, and the
  bytes are downloaded twice. Asked for by one page under one index, the path is the
  same, and the bytes are still downloaded twice.
\<close>

theorem same_content_two_downloads:
  "http_get site_env url_a = http_get site_env url_b
   \<and> (case saveNotionImage site_env url_a ''page-a'' ''0'' images_dir site_world of
        (pa, w1) \<Rightarrow>
          (case saveNotionImage site_env url_b ''page-b'' ''0'' images_dir w1 of
             (pb, w2) \<Rightarrow> pa \<noteq> pb \<and> calls w2 = [Download url_a, Download url_b]))
   \<and> (case saveNotionImage site_env url_a ''page-a'' ''0'' images_dir site_world of
        (pa, w1) \<Rightarrow>
          (case saveNotionImage site_env url_b ''page-a'' ''0'' images_dir w1 of
             (pb, w2) \<Rightarrow> pa = pb \<and> calls w2 = [Download url_a, Download url_b]))"
proof (intro conjI)
  show "http_get site_env url_a = http_get site_env url_b" by (simp add: site_env_def)
  show "case saveNotionImage site_env url_a ''page-a'' ''0'' images_dir site_world of
        (pa, w1) \<Rightarrow>
          (case saveNotionImage site_env url_b ''page-b'' ''0'' images_dir w1 of
             (pb, w2) \<Rightarrow> pa \<noteq> pb \<and> calls w2 = [Download url_a, Download url_b])"
    by code_simp
  show "case saveNotionImage site_env url_a ''page-a'' ''0'' images_dir site_world of
        (pa, w1) \<Rightarrow>
          (case saveNotionImage site_env url_b ''page-a'' ''0'' images_dir w1 of
             (pb, w2) \<Rightarrow> pa = pb \<and> calls w2 = [Download url_a, Download url_b])"
    by code_simp
qed

subsection \<open>Reconciliation of the output directory\<close>























lemma md_files_log [simp]: "md_files (log_call c w) d = md_files w d"
  by (simp add: md_files_def listing_def log_call_def)

lemma md_files_cache [simp]: "md_files (w\<lparr>imageCache := x\<rparr>) d = md_files w d"
  by (simp add: md_files_def listing_def)

lemma md_files_writes [simp]: "md_files (w\<lparr>writes := x\<rparr>) d = md_files w d"
  by (simp add: md_files_def listing_def)
























subsection \<open>Cross references\<close>
























end
